theory Spec2Isabelle
  imports Complex_Main
begin

section \<open>Numbers\<close>

text \<open>
  The library computes with C++ \<^verbatim>\<open>double\<close>. Rounding is not modelled: a finite double is a
  real number and arithmetic on finite values is exact. Where the code itself produces or
  inspects a non-finite value (\<^verbatim>\<open>NAN\<close>, \<^verbatim>\<open>INFINITY\<close>, \<^verbatim>\<open>std::isnan\<close>, \<^verbatim>\<open>std::isinf\<close>)
  the value has the type \<open>double\<close> below. \<^verbatim>\<open>int\<close> variables are unbounded integers.
\<close>

datatype double = Finite real | PosInf | NegInf | NaN

fun isnan :: "double \<Rightarrow> bool" where
  "isnan NaN = True"
| "isnan _ = False"

fun isinf :: "double \<Rightarrow> bool" where
  "isinf PosInf = True"
| "isinf NegInf = True"
| "isinf _ = False"

text \<open>\<^verbatim>\<open>theta * v\<close> for a finite \<^verbatim>\<open>theta\<close> and a value \<^verbatim>\<open>v\<close> that may be a sentinel.\<close>

fun dscale :: "real \<Rightarrow> double \<Rightarrow> double" where
  "dscale t (Finite x) = Finite (t * x)"
| "dscale t NaN = NaN"
| "dscale t PosInf = (if 0 < t then PosInf else if t < 0 then NegInf else NaN)"
| "dscale t NegInf = (if 0 < t then NegInf else if t < 0 then PosInf else NaN)"

text \<open>\<^verbatim>\<open>std::round\<close>: to the nearest integer, halfway cases away from zero.\<close>

definition c_round :: "real \<Rightarrow> real" where
  "c_round x = (if 0 \<le> x then of_int \<lfloor>x + 1 / 2\<rfloor> else of_int \<lceil>x - 1 / 2\<rceil>)"

text \<open>Conversion of a double to \<^verbatim>\<open>int\<close>: truncation toward zero.\<close>

definition to_int :: "real \<Rightarrow> int" where
  "to_int x = (if 0 \<le> x then \<lfloor>x\<rfloor> else \<lceil>x\<rceil>)"

section \<open>RandMath\<close>

text \<open>
  Modelled from the spec: the body of \<^verbatim>\<open>RandMath::areClose\<close> is not part of the sources; its
  declaration in \<^verbatim>\<open>RandMath.h\<close> documents the result as \<^verbatim>\<open>|a - b| < eps * max(a, b)\<close>, with
  \<^verbatim>\<open>eps\<close> defaulting to \<^verbatim>\<open>1e-6\<close>.
\<close>

definition areClose_eps :: "real \<Rightarrow> real \<Rightarrow> real \<Rightarrow> bool" where
  "areClose_eps a b eps = (\<bar>a - b\<bar> < eps * max a b)"

definition areClose :: "real \<Rightarrow> real \<Rightarrow> bool" where
  "areClose a b = areClose_eps a b (1 / 10 ^ 6)"

text \<open>
  Modelled from the spec: \<^verbatim>\<open>RandMath::sum\<close> and \<^verbatim>\<open>RandMath::sampleMean\<close> have no body in the
  sources; \<^verbatim>\<open>RandMath.h\<close> documents them as the sum of all elements of a sample and its
  arithmetic average. (The average of an empty sample is \<^verbatim>\<open>0.0 / 0\<close> in the code and \<open>0\<close> here.)
\<close>

definition sum_sample :: "real list \<Rightarrow> real" where
  "sum_sample sample = sum_list sample"

definition sampleMean :: "real list \<Rightarrow> real" where
  "sampleMean sample = sum_sample sample / real (length sample)"

text \<open>
  The functions of \<^verbatim>\<open>cmath\<close> and the numerical routines of \<^verbatim>\<open>RandMath\<close> whose bodies are not
  part of the sources are parameters of the model: every operation that calls one of them takes
  a record of this type, and the theorems hold for every such record.
\<close>

record mathlib =
  c_pow :: "real \<Rightarrow> real \<Rightarrow> real"
  c_exp :: "real \<Rightarrow> real"
  c_log :: "real \<Rightarrow> real"
  c_sqrt :: "real \<Rightarrow> real"
  c_tgamma :: "real \<Rightarrow> real"
  factorial :: "real \<Rightarrow> real"
  binomialCoef :: "int \<Rightarrow> int \<Rightarrow> real"
  lowerIncGamma :: "real \<Rightarrow> real \<Rightarrow> real"
  integral :: "(real \<Rightarrow> real) \<Rightarrow> real \<Rightarrow> real \<Rightarrow> real \<Rightarrow> real"
  findRoot :: "(real \<Rightarrow> real) \<Rightarrow> (real \<Rightarrow> real) \<Rightarrow> real \<Rightarrow> bool \<times> real"

text \<open>
  \<open>integral M g a b eps\<close> is \<^verbatim>\<open>RandMath::integral(g, a, b, eps)\<close>, the adaptive Simpson
  quadrature. \<open>findRoot M g g' x0\<close> is Newton's procedure \<^verbatim>\<open>RandMath::findRoot(g, g', root)\<close>
  started at \<open>x0\<close>: the boolean it returns and the final value of the reference argument
  \<^verbatim>\<open>root\<close>.
\<close>

section \<open>ContinuousDistribution\<close>

text \<open>
  The virtual interface the generic algorithms use: the density \<^verbatim>\<open>f\<close>, the cumulative
  function \<^verbatim>\<open>F\<close>, \<^verbatim>\<open>Mean()\<close> and \<^verbatim>\<open>Variance()\<close>. \<^verbatim>\<open>Quantile\<close> tests the mean for
  \<^verbatim>\<open>NAN\<close> and infinity, so the mean is a \<open>double\<close>; \<^verbatim>\<open>ExpectedValue\<close> is for distributions
  with a finite variance, a real number.
\<close>

record cdist =
  cd_f :: "real \<Rightarrow> real"
  cd_F :: "real \<Rightarrow> real"
  cd_Mean :: double
  cd_Variance :: real

text \<open>
  \<^verbatim>\<open>for (size_t i = 0; i != size; ++i) y[i] = f(x[i]);\<close> is a fold over the indices
  \<open>0, \<dots>, size - 1\<close>.
\<close>

definition ProbabilityDensityFunction :: "cdist \<Rightarrow> real list \<Rightarrow> real list \<Rightarrow> real list" where
  "ProbabilityDensityFunction D x y =
     (let size = length x in
      if size > length y then y
      else foldl (\<lambda>y i. y[i := cd_f D (x ! i)]) y [0..<size])"

definition Quantile :: "mathlib \<Rightarrow> cdist \<Rightarrow> real \<Rightarrow> double" where
  "Quantile M D p =
     (if p < 0 \<or> p > 1 then NaN
      else
        let root0 = cd_Mean D;
            root = (if isnan root0 \<or> isinf root0 then 0 else (case root0 of Finite r \<Rightarrow> r | _ \<Rightarrow> 0))
        in case findRoot M (\<lambda>x. cd_F D x - p) (\<lambda>x. cd_f D x) root of
             (True, root') \<Rightarrow> Finite root'
           | (False, _) \<Rightarrow> PosInf)"

definition epsilon :: real where
  "epsilon = 1 / 10 ^ 10"

definition maxIter :: nat where
  "maxIter = 1000"

text \<open>
  The two \<^verbatim>\<open>do { ... } while (std::fabs(integrand) > epsilon && ++iter < maxIter)\<close> loops of
  \<^verbatim>\<open>ExpectedValue\<close>. Each returns the final \<^verbatim>\<open>iter\<close> and the final boundary.
\<close>

function EV_lower_loop :: "cdist \<Rightarrow> (real \<Rightarrow> real) \<Rightarrow> real \<Rightarrow> nat \<Rightarrow> real \<Rightarrow> nat \<times> real" where
  "EV_lower_loop D funPtr var iter lowerBoundary =
     (let lowerBoundary' = lowerBoundary - var;
          y = funPtr lowerBoundary';
          integrand = (if y = 0 then 0 else y * cd_f D lowerBoundary')
      in if \<bar>integrand\<bar> > epsilon then
           (if iter + 1 < maxIter then EV_lower_loop D funPtr var (iter + 1) lowerBoundary'
            else (iter + 1, lowerBoundary'))
         else (iter, lowerBoundary'))"
  by pat_completeness auto
termination
  by (relation "measure (\<lambda>(D, funPtr, var, iter, lowerBoundary). maxIter - iter)") auto

declare EV_lower_loop.simps [simp del]

function EV_upper_loop :: "cdist \<Rightarrow> (real \<Rightarrow> real) \<Rightarrow> real \<Rightarrow> nat \<Rightarrow> real \<Rightarrow> nat \<times> real" where
  "EV_upper_loop D funPtr var iter upperBoundary =
     (let upperBoundary' = upperBoundary + var;
          y = funPtr upperBoundary';
          integrand = (if y = 0 then 0 else y * cd_f D upperBoundary')
      in if \<bar>integrand\<bar> > epsilon then
           (if iter + 1 < maxIter then EV_upper_loop D funPtr var (iter + 1) upperBoundary'
            else (iter + 1, upperBoundary'))
         else (iter, upperBoundary'))"
  by pat_completeness auto
termination
  by (relation "measure (\<lambda>(D, funPtr, var, iter, upperBoundary). maxIter - iter)") auto

declare EV_upper_loop.simps [simp del]

definition ExpectedValue :: "mathlib \<Rightarrow> cdist \<Rightarrow> (real \<Rightarrow> real) \<Rightarrow> real \<Rightarrow> double" where
  "ExpectedValue M D funPtr startPoint =
     (let var = cd_Variance D;
          (iter, lowerBoundary) = EV_lower_loop D funPtr var 0 startPoint
      in if iter = maxIter then NaN
         else
           let (iter', upperBoundary) = EV_upper_loop D funPtr var 0 startPoint
           in if iter' = maxIter then NaN
              else Finite (integral M (\<lambda>x. let y = funPtr x in if y = 0 then 0 else y * cd_f D x)
                             lowerBoundary upperBoundary epsilon))"

section \<open>Standard variate sources\<close>

text \<open>
  The uniform, normal, exponential, Bernoulli and geometric generators are other classes of the
  library and are not part of the sources. They are parameters of the model: a draw takes the
  state \<open>'g\<close> of the underlying generator and returns the variate and the next state, so the
  draws a function consumes, and their order, are visible in its result.
  \<open>geometric S pr\<close> is \<^verbatim>\<open>G.variate()\<close> for the member \<^verbatim>\<open>G\<close> of \<^verbatim>\<open>BinomialRand\<close> after
  \<^verbatim>\<open>G.setProbability(pr)\<close>; a geometric variate counts failures and is a natural number.
\<close>

record 'g sources =
  uniformStd :: "'g \<Rightarrow> real \<times> 'g"
  uniformAB :: "real \<Rightarrow> real \<Rightarrow> 'g \<Rightarrow> real \<times> 'g"
  normalStd :: "'g \<Rightarrow> real \<times> 'g"
  expStd :: "'g \<Rightarrow> real \<times> 'g"
  bernoulliStd :: "'g \<Rightarrow> int \<times> 'g"
  bernoulliP :: "real \<Rightarrow> 'g \<Rightarrow> int \<times> 'g"
  geometric :: "real \<Rightarrow> 'g \<Rightarrow> nat \<times> 'g"

text \<open>
  A source for concrete runs: the generator state counts the draws made so far, every
  exponential draw is \<open>e\<close>, every normal draw is \<open>z\<close>, every uniform draw is \<open>u\<close> (scaled to
  the interval asked for), every Bernoulli draw is \<open>0\<close> and every geometric draw is \<open>k\<close>.
\<close>

definition counting_sources :: "real \<Rightarrow> real \<Rightarrow> real \<Rightarrow> nat \<Rightarrow> nat sources" where
  "counting_sources e z u k =
     \<lparr> uniformStd = (\<lambda>g. (u, Suc g)),
       uniformAB = (\<lambda>a b g. (a + (b - a) * u, Suc g)),
       normalStd = (\<lambda>g. (z, Suc g)),
       expStd = (\<lambda>g. (e, Suc g)),
       bernoulliStd = (\<lambda>g. (0, Suc g)),
       bernoulliP = (\<lambda>pr g. (0, Suc g)),
       geometric = (\<lambda>pr g. (k, Suc g)) \<rparr>"

text \<open>
  \<^verbatim>\<open>for (T &var : outputData) var = draw();\<close>: one draw per slot, in order. A draw that does
  not return (\<open>None\<close>) leaves the whole call without a result.
\<close>

fun fill_each :: "('g \<Rightarrow> ('a \<times> 'g) option) \<Rightarrow> 'b list \<Rightarrow> 'g \<Rightarrow> ('a list \<times> 'g) option" where
  "fill_each draw [] g = Some ([], g)"
| "fill_each draw (x # xs) g =
     (case draw g of
        None \<Rightarrow> None
      | Some (v, g') \<Rightarrow>
          (case fill_each draw xs g' of
             None \<Rightarrow> None
           | Some (vs, g'') \<Rightarrow> Some (v # vs, g'')))"

section \<open>GammaRand\<close>

text \<open>
  The members of \<^verbatim>\<open>GammaRand\<close>. The constants \<^verbatim>\<open>m, s_2, s, d, b, w, v, c\<close> of the generator
  for a large shape carry the prefix \<open>gen_\<close>.
\<close>

record gamma =
  alpha :: real
  theta :: real
  beta :: real
  alphaInv :: real
  cdfCoef :: real
  pdfCoef :: real
  variateCoef :: real
  gen_m :: real
  gen_s_2 :: real
  gen_s :: real
  gen_d :: real
  gen_b :: real
  gen_w :: real
  gen_v :: real
  gen_c :: real

definition M_1_E :: real where
  "M_1_E = 1 / exp 1"

definition setConstantsForGenerator :: "mathlib \<Rightarrow> gamma \<Rightarrow> gamma" where
  "setConstantsForGenerator M st =
     (let m = alpha st - 1;
          s_2 = c_sqrt M (8 * alpha st / 3) + alpha st;
          s = c_sqrt M s_2;
          d = sqrt 2 * sqrt 3 * s_2;
          b = d + m;
          w = s_2 / (m - 1);
          v = (s_2 + s_2) / (m * c_sqrt M (alpha st));
          c = b + c_log M (s * d / b) - m - m - 37203285 / 10 ^ 7
      in st\<lparr> gen_m := m, gen_s_2 := s_2, gen_s := s, gen_d := d, gen_b := b,
              gen_w := w, gen_v := v, gen_c := c \<rparr>)"

definition Gamma_setParameters :: "mathlib \<Rightarrow> real \<Rightarrow> real \<Rightarrow> gamma \<Rightarrow> gamma" where
  "Gamma_setParameters M shape scale st =
     (let alpha0 = (if shape \<le> 0 then 1 else shape);
          alphaInv' = 1 / alpha0;
          theta' = (if scale \<le> 0 then 1 else scale);
          beta' = 1 / theta';
          alphaRound = c_round alpha0;
          alpha' = (if areClose alpha0 alphaRound then alphaRound else alpha0);
          cdfCoef' = (if areClose alpha0 alphaRound then 1 / factorial M (alpha' - 1)
                      else 1 / c_tgamma M alpha');
          pdfCoef' = cdfCoef' * c_pow M beta' alpha';
          variateCoef' = alphaInv' + M_1_E;
          st' = st\<lparr> alpha := alpha', theta := theta', beta := beta', alphaInv := alphaInv',
                     cdfCoef := cdfCoef', pdfCoef := pdfCoef', variateCoef := variateCoef' \<rparr>
      in if alpha' > 3 then setConstantsForGenerator M st' else st')"

text \<open>The constructor \<^verbatim>\<open>GammaRand(shape, scale)\<close>; \<open>st0\<close> is the uninitialised object.\<close>

definition GammaRand :: "mathlib \<Rightarrow> real \<Rightarrow> real \<Rightarrow> gamma \<Rightarrow> gamma" where
  "GammaRand M shape scale st0 = Gamma_setParameters M shape scale st0"

definition Gamma_f :: "mathlib \<Rightarrow> gamma \<Rightarrow> real \<Rightarrow> real" where
  "Gamma_f M st x =
     (if x < 0 then 0
      else let y = c_pow M x (alpha st - 1);
               y' = y * c_exp M (- x * beta st)
           in pdfCoef st * y')"

definition Gamma_F :: "mathlib \<Rightarrow> gamma \<Rightarrow> real \<Rightarrow> real" where
  "Gamma_F M st x = (if x < 0 then 0 else cdfCoef st * lowerIncGamma M (alpha st) (x * beta st))"

text \<open>
  \<^verbatim>\<open>for (int i = 0; i < bound; ++i) rv += ExponentialRand::standardVariate();\<close> with a
  \<^verbatim>\<open>double\<close> bound: the loop of \<^verbatim>\<open>variateForIntegerShape\<close> (bound \<^verbatim>\<open>alpha\<close>) and of
  \<^verbatim>\<open>variateForHalfIntegerShape\<close> (bound \<^verbatim>\<open>alpha - 1\<close>).
\<close>

function exp_sum_loop :: "'g sources \<Rightarrow> real \<Rightarrow> int \<Rightarrow> real \<Rightarrow> 'g \<Rightarrow> real \<times> 'g" where
  "exp_sum_loop S bound i rv g =
     (if real_of_int i < bound then
        (let (W, g') = expStd S g in exp_sum_loop S bound (i + 1) (rv + W) g')
      else (rv, g))"
  by pat_completeness auto
termination
  by (relation "measure (\<lambda>(S, bound, i, rv, g). nat (\<lceil>bound\<rceil> - i))") (auto simp: less_ceiling_iff)

declare exp_sum_loop.simps [simp del]

definition variateForIntegerShape :: "'g sources \<Rightarrow> gamma \<Rightarrow> 'g \<Rightarrow> real \<times> 'g" where
  "variateForIntegerShape S st g = exp_sum_loop S (alpha st) 0 0 g"

definition variateForHalfIntegerShape :: "'g sources \<Rightarrow> gamma \<Rightarrow> 'g \<Rightarrow> real \<times> 'g" where
  "variateForHalfIntegerShape S st g =
     (let (rv, g1) = exp_sum_loop S (alpha st - 1) 0 0 g;
          (N, g2) = normalStd S g1
      in (rv + (1 / 2) * N * N, g2))"

text \<open>
  \<^verbatim>\<open>do { ... } while (++iter < 1e9); return NAN;\<close>: at most \<open>10\<^sup>9\<close> rounds.
\<close>

function variateForSmallShape_loop :: "'g sources \<Rightarrow> mathlib \<Rightarrow> gamma \<Rightarrow> nat \<Rightarrow> 'g \<Rightarrow> double \<times> 'g" where
  "variateForSmallShape_loop S M st iter g =
     (let (U, g1) = uniformStd S g;
          p = alpha st * variateCoef st * U;
          (W, g2) = expStd S g1
      in if p \<le> 1 then
           (let rv = c_pow M p (alphaInv st)
            in if rv \<le> W then (Finite rv, g2)
               else if iter + 1 < 10 ^ 9 then variateForSmallShape_loop S M st (iter + 1) g2
               else (NaN, g2))
         else
           (let rv = - c_log M (variateCoef st * (1 - U))
            in if (1 - alpha st) * c_log M rv \<le> W then (Finite rv, g2)
               else if iter + 1 < 10 ^ 9 then variateForSmallShape_loop S M st (iter + 1) g2
               else (NaN, g2)))"
  by pat_completeness auto
termination
  by (relation "measure (\<lambda>(S, M, st, iter, g). 10 ^ 9 - iter)") auto

declare variateForSmallShape_loop.simps [simp del]

definition variateForSmallShape :: "'g sources \<Rightarrow> mathlib \<Rightarrow> gamma \<Rightarrow> 'g \<Rightarrow> double \<times> 'g" where
  "variateForSmallShape S M st g = variateForSmallShape_loop S M st 0 g"

text \<open>
  The loop of \<^verbatim>\<open>variateForMediumShape\<close> has no bound on its rounds: \<open>None\<close> is a run that
  never accepts.
\<close>

partial_function (option) variateForMediumShape :: "'g sources \<Rightarrow> mathlib \<Rightarrow> gamma \<Rightarrow> 'g \<Rightarrow> (double \<times> 'g) option" where
  "variateForMediumShape S M st g =
     (let r1 = expStd S g;
          W1 = fst r1;
          r2 = expStd S (snd r1);
          W2 = fst r2
      in if W2 < (alpha st - 1) * (W1 - c_log M W1 - 1) then variateForMediumShape S M st (snd r2)
         else Some (Finite (alpha st * W1), snd r2))"

text \<open>
  The inner loop of \<^verbatim>\<open>variateForLargeShape\<close>,
  \<^verbatim>\<open>do { N = NormalRand::standardVariate(); rv = s * N + m; } while (rv < 0 || rv > b);\<close>,
  has no bound either. It returns \<^verbatim>\<open>N\<close>, \<^verbatim>\<open>rv\<close> and the generator state.
\<close>

partial_function (option) normal_in_range :: "'g sources \<Rightarrow> gamma \<Rightarrow> 'g \<Rightarrow> (real \<times> real \<times> 'g) option" where
  "normal_in_range S st g =
     (let r = normalStd S g;
          N = fst r;
          rv = gen_s st * N + gen_m st
      in if rv < 0 \<or> rv > gen_b st then normal_in_range S st (snd r)
         else Some (N, rv, snd r))"

function variateForLargeShape_loop :: "'g sources \<Rightarrow> mathlib \<Rightarrow> gamma \<Rightarrow> nat \<Rightarrow> 'g \<Rightarrow> (double \<times> 'g) option" where
  "variateForLargeShape_loop S M st iter g =
     (let (U, g1) = uniformStd S g
      in if U \<le> 95722652 / 10 ^ 10 then
           (let (W1, g2) = expStd S g1;
                (W2, g3) = expStd S g2;
                rv = gen_b st * (1 + W1 / gen_d st)
            in if gen_m st * (rv / gen_b st - c_log M (rv / gen_m st)) + gen_c st \<le> W2
               then Some (Finite rv, g3)
               else if iter + 1 < 10 ^ 9 then variateForLargeShape_loop S M st (iter + 1) g3
               else Some (NaN, g3))
         else
           (case normal_in_range S st g1 of
              None \<Rightarrow> None
            | Some (N, rv, g2) \<Rightarrow>
                (let (U', g3) = uniformStd S g2;
                     S' = (1 / 2) * N * N
                 in if (if N > 0 then U' < 1 - gen_w st * S'
                        else U' < 1 + S' * (gen_v st * N - gen_w st))
                    then Some (Finite rv, g3)
                    else if c_log M U' < gen_m st * c_log M (rv / gen_m st) + gen_m st - rv + S'
                    then Some (Finite rv, g3)
                    else if iter + 1 < 10 ^ 9 then variateForLargeShape_loop S M st (iter + 1) g3
                    else Some (NaN, g3))))"
  by pat_completeness auto
termination
  by (relation "measure (\<lambda>(S, M, st, iter, g). 10 ^ 9 - iter)") auto

declare variateForLargeShape_loop.simps [simp del]

definition variateForLargeShape :: "'g sources \<Rightarrow> mathlib \<Rightarrow> gamma \<Rightarrow> 'g \<Rightarrow> (double \<times> 'g) option" where
  "variateForLargeShape S M st g = variateForLargeShape_loop S M st 0 g"

text \<open>\<^verbatim>\<open>theta * draw()\<close> for the five draws.\<close>

definition scaled :: "gamma \<Rightarrow> (double \<times> 'g) option \<Rightarrow> (double \<times> 'g) option" where
  "scaled st r = map_option (\<lambda>(x, g). (dscale (theta st) x, g)) r"

definition finite_draw :: "real \<times> 'g \<Rightarrow> (double \<times> 'g) option" where
  "finite_draw r = Some (Finite (fst r), snd r)"

definition Gamma_variate :: "'g sources \<Rightarrow> mathlib \<Rightarrow> gamma \<Rightarrow> 'g \<Rightarrow> (double \<times> 'g) option" where
  "Gamma_variate S M st g =
     (if alpha st < 5 then
        (let alphaRound = c_round (alpha st)
         in if areClose (alpha st) alphaRound then
              scaled st (finite_draw (variateForIntegerShape S st g))
            else if areClose (alpha st - 1 / 2) alphaRound then
              scaled st (finite_draw (variateForIntegerShape S st g))
            else if alpha st \<le> 1 then
              scaled st (Some (variateForSmallShape S M st g))
            else if alpha st \<le> 3 then
              scaled st (variateForMediumShape S M st g)
            else scaled st (variateForLargeShape S M st g))
      else scaled st (variateForLargeShape S M st g))"

definition Gamma_sample :: "'g sources \<Rightarrow> mathlib \<Rightarrow> gamma \<Rightarrow> real list \<Rightarrow> 'g \<Rightarrow> (double list \<times> 'g) option" where
  "Gamma_sample S M st outputData g =
     (if alpha st < 5 then
        (let alphaRound = c_round (alpha st)
         in if areClose (alpha st) alphaRound then
              fill_each (\<lambda>g. scaled st (finite_draw (variateForIntegerShape S st g))) outputData g
            else if areClose (alpha st - 1 / 2) alphaRound then
              fill_each (\<lambda>g. scaled st (finite_draw (variateForHalfIntegerShape S st g))) outputData g
            else if alpha st \<le> 1 then
              fill_each (\<lambda>g. scaled st (Some (variateForSmallShape S M st g))) outputData g
            else if alpha st \<le> 3 then
              fill_each (\<lambda>g. scaled st (variateForMediumShape S M st g)) outputData g
            else fill_each (\<lambda>g. scaled st (variateForLargeShape S M st g)) outputData g)
      else fill_each (\<lambda>g. scaled st (variateForLargeShape S M st g)) outputData g)"

section \<open>BinomialRand\<close>

text \<open>
  The members of \<^verbatim>\<open>BinomialRand\<close>; \<^verbatim>\<open>n, p, q, c\<close> carry the prefix \<open>bin_\<close>. \<open>G_prob\<close> is
  the probability of the geometric member \<^verbatim>\<open>G\<close>: the argument of the last
  \<^verbatim>\<open>G.setProbability\<close>.
\<close>

record binomial =
  bin_n :: int
  bin_p :: real
  bin_q :: real
  np :: real
  minpq :: real
  npFloor :: real
  pFloor :: real
  pRes :: real
  nqFloor :: real
  delta1 :: real
  delta2 :: real
  sigma1 :: real
  sigma2 :: real
  bin_c :: real
  a1 :: real
  a2 :: real
  a3 :: real
  a4 :: real
  coefa3 :: real
  coefa4 :: real
  logPFloor :: real
  logQFloor :: real
  logPnpInv :: real
  G_prob :: real

datatype GENERATOR_ID = BERNOULLI_SUM | WAITING | REJECTION

definition getIdOfUsedGenerator :: "binomial \<Rightarrow> GENERATOR_ID" where
  "getIdOfUsedGenerator st =
     (if bin_n st \<le> 3 \<or> (bin_n st \<le> 13 \<and> minpq st > (25 / 1000) * real_of_int (bin_n st + 6))
         \<or> (bin_n st \<le> 200 \<and> areClose (bin_p st) (1 / 2))
      then BERNOULLI_SUM
      else if npFloor st \<le> 12 \<or> (pRes st > 0 \<and> npFloor st \<le> 16) then WAITING
      else REJECTION)"

definition logProbFloor :: "mathlib \<Rightarrow> binomial \<Rightarrow> int \<Rightarrow> real" where
  "logProbFloor M st k =
     c_log M (binomialCoef M (bin_n st) k) + real_of_int k * logPFloor st
       + real_of_int (bin_n st - k) * logQFloor st"

definition M_SQRT2PI :: real where
  "M_SQRT2PI = sqrt (2 * pi)"

text \<open>The part of \<^verbatim>\<open>setGeneratorConstants\<close> after the two early returns.\<close>

definition setRejectionConstants :: "mathlib \<Rightarrow> binomial \<Rightarrow> binomial" where
  "setRejectionConstants M st0 =
     (let n = real_of_int (bin_n st0);
          nqFloor' = n - npFloor st0;
          qFloor = 1 - pFloor st0;
          st1 = (if pRes st0 > 0 then st0\<lparr> G_prob := pRes st0 / qFloor \<rparr> else st0);
          npq = npFloor st0 * qFloor;
          coef = 128 * n / pi;
          d1 = npq * c_log M (coef * pFloor st0 / (81 * qFloor));
          delta1' = (if d1 > 1 then c_sqrt M d1 else 1);
          d2 = npq * c_log M (coef * qFloor / pFloor st0);
          delta2' = (if d2 > 1 then c_sqrt M d2 else 1);
          npqSqrt = c_sqrt M npq;
          sigma1' = npqSqrt * (1 + (1 / 4) * delta1' / npFloor st0);
          sigma2' = npqSqrt * (1 + (1 / 4) * delta2' / nqFloor');
          c' = 2 * delta1' / npFloor st0;
          a1' = (1 / 2) * c_exp M c' * sigma1' * M_SQRT2PI;
          a2' = (1 / 2) * sigma2' * M_SQRT2PI + a1';
          coefa3' = (1 / 2) * delta1' / (sigma1' * sigma1');
          a3' = c_exp M ((1 / nqFloor' - coefa3') * delta1') / coefa3' + a2';
          coefa4' = (1 / 2) * delta2' / (sigma2' * sigma2');
          a4' = c_exp M (- delta2' * coefa4') / coefa4' + a3';
          logPFloor' = c_log M (pFloor st0);
          logQFloor' = (if pFloor st0 = qFloor then logPFloor' else c_log M qFloor);
          st2 = st1\<lparr> nqFloor := nqFloor', delta1 := delta1', delta2 := delta2',
                     sigma1 := sigma1', sigma2 := sigma2', bin_c := c', a1 := a1', a2 := a2',
                     coefa3 := coefa3', a3 := a3', coefa4 := coefa4', a4 := a4',
                     logPFloor := logPFloor', logQFloor := logQFloor' \<rparr>
      in st2\<lparr> logPnpInv := logProbFloor M st2 (to_int (npFloor st2)) \<rparr>)"

definition setGeneratorConstants :: "mathlib \<Rightarrow> binomial \<Rightarrow> binomial" where
  "setGeneratorConstants M st =
     (let minpq' = min (bin_p st) (bin_q st);
          npFloor' = of_int \<lfloor>real_of_int (bin_n st) * minpq'\<rfloor>;
          pFloor' = npFloor' / real_of_int (bin_n st);
          pRes' = (if areClose npFloor' (real_of_int (bin_n st) * minpq') then 0
                   else minpq' - pFloor');
          st0 = st\<lparr> minpq := minpq', npFloor := npFloor', pFloor := pFloor', pRes := pRes' \<rparr>;
          genId = getIdOfUsedGenerator st0
      in if genId = BERNOULLI_SUM then st0
         else if genId = WAITING then st0\<lparr> G_prob := minpq' \<rparr>
         else setRejectionConstants M st0)"

definition Binomial_setParameters :: "mathlib \<Rightarrow> int \<Rightarrow> real \<Rightarrow> binomial \<Rightarrow> binomial" where
  "Binomial_setParameters M number probability st =
     (let n' = max number 1;
          p' = max (min probability 1) 0;
          q' = 1 - p'
      in setGeneratorConstants M
           (st\<lparr> bin_n := n', bin_p := p', bin_q := q', np := real_of_int n' * p' \<rparr>))"

text \<open>The constructor \<^verbatim>\<open>BinomialRand(number, probability)\<close>; \<open>st0\<close> is the uninitialised object.\<close>

definition BinomialRand :: "mathlib \<Rightarrow> int \<Rightarrow> real \<Rightarrow> binomial \<Rightarrow> binomial" where
  "BinomialRand M number probability st0 = Binomial_setParameters M number probability st0"

text \<open>
  Modelled from the spec: \<^verbatim>\<open>RandMath::regularizedBetaFun\<close> has no body in the sources. It is
  the regularized incomplete beta function \<open>I\<^sub>x(a, b)\<close>, here in its closed form for whole
  \<open>a, b \<ge> 1\<close>, the arguments \<^verbatim>\<open>BinomialRand::F\<close> passes:
  \<open>I\<^sub>x(a, b) = \<Sum>\<^sub>j\<^sub>=\<^sub>a\<^sup>a\<^sup>+\<^sup>b\<^sup>-\<^sup>1 C(a+b-1, j) x\<^sup>j (1-x)\<^sup>a\<^sup>+\<^sup>b\<^sup>-\<^sup>1\<^sup>-\<^sup>j\<close>.
\<close>

definition regularizedBetaFun :: "real \<Rightarrow> real \<Rightarrow> real \<Rightarrow> real" where
  "regularizedBetaFun x a b =
     (let a' = nat \<lfloor>a\<rfloor>; b' = nat \<lfloor>b\<rfloor>; N = a' + b' - 1
      in \<Sum>j = a'..N. real (N choose j) * x ^ j * (1 - x) ^ (N - j))"

definition Binomial_F :: "binomial \<Rightarrow> int \<Rightarrow> real" where
  "Binomial_F st k =
     (if k < 0 then 0
      else if k \<ge> bin_n st then 1
      else regularizedBetaFun (bin_q st) (real_of_int (bin_n st - k)) (real_of_int (1 + k)))"

text \<open>
  One round of the loop of \<^verbatim>\<open>variateRejection\<close> up to \<^verbatim>\<open>X += npFloor\<close>: the proposal
  \<^verbatim>\<open>(X, V)\<close> of the region \<^verbatim>\<open>U\<close> selects, or \<open>None\<close> when \<^verbatim>\<open>reject\<close> is set (the code then does
  not read \<^verbatim>\<open>X\<close> and \<^verbatim>\<open>V\<close>).
\<close>

definition rejection_proposal :: "'g sources \<Rightarrow> binomial \<Rightarrow> 'g \<Rightarrow> (real \<times> real) option \<times> 'g" where
  "rejection_proposal S st g =
     (let (U, g1) = uniformAB S 0 (a4 st) g
      in if U \<le> a1 st then
           (let (N, g2) = normalStd S g1;
                Y = sigma1 st * \<bar>N\<bar>
            in if Y \<ge> delta1 st then (None, g2)
               else let (W, g3) = expStd S g2
                    in (Some (of_int \<lfloor>Y\<rfloor>, - W - (1 / 2) * N * N + bin_c st), g3))
         else if U \<le> a2 st then
           (let (N, g2) = normalStd S g1;
                Y = sigma2 st * \<bar>N\<bar>
            in if Y \<ge> delta2 st then (None, g2)
               else let (W, g3) = expStd S g2
                    in (Some (of_int \<lfloor>- Y\<rfloor>, - W - (1 / 2) * N * N), g3))
         else if U \<le> a3 st then
           (let (W1, g2) = expStd S g1;
                (W2, g3) = expStd S g2;
                Y = delta1 st + W1 / coefa3 st
            in (Some (of_int \<lfloor>Y\<rfloor>, - W2 - coefa3 st * Y + delta1 st / nqFloor st), g3))
         else
           (let (W1, g2) = expStd S g1;
                (W2, g3) = expStd S g2;
                Y = delta2 st + W1 / coefa4 st
            in (Some (of_int \<lfloor>- Y\<rfloor>, - W2 - coefa4 st * Y), g3)))"

function variateRejection_loop :: "'g sources \<Rightarrow> mathlib \<Rightarrow> binomial \<Rightarrow> nat \<Rightarrow> 'g \<Rightarrow> int \<times> 'g" where
  "variateRejection_loop S M st iter g =
     (let (prop, g') = rejection_proposal S st g;
          accepted =
            (case prop of
               None \<Rightarrow> None
             | Some (X0, V) \<Rightarrow>
                 (let X = X0 + npFloor st
                  in if X \<ge> 0 \<and> X \<le> real_of_int (bin_n st)
                        \<and> V \<le> logProbFloor M st (to_int X) - logPnpInv st
                     then Some (to_int X) else None))
      in case accepted of
           Some X \<Rightarrow> (X, g')
         | None \<Rightarrow>
             (if iter + 1 < 10 ^ 9 then variateRejection_loop S M st (iter + 1) g'
              else (- 1, g')))"
  by pat_completeness auto
termination
  by (relation "measure (\<lambda>(S, M, st, iter, g). 10 ^ 9 - iter)") auto

declare variateRejection_loop.simps [simp del]

definition variateRejection :: "'g sources \<Rightarrow> mathlib \<Rightarrow> binomial \<Rightarrow> 'g \<Rightarrow> int \<times> 'g" where
  "variateRejection S M st g = variateRejection_loop S M st 0 g"

text \<open>
  \<^verbatim>\<open>do { sum += G.variate() + 1.0; ++X; } while (sum <= number);\<close> with \<^verbatim>\<open>int sum\<close>: the sum
  stays whole.
\<close>

function variateWaiting_loop :: "'g sources \<Rightarrow> binomial \<Rightarrow> int \<Rightarrow> int \<Rightarrow> int \<Rightarrow> 'g \<Rightarrow> int \<times> 'g" where
  "variateWaiting_loop S st number X sum0 g =
     (let (Gv, g') = geometric S (G_prob st) g;
          sum' = sum0 + (int Gv + 1);
          X' = X + 1
      in if sum' \<le> number then variateWaiting_loop S st number X' sum' g'
         else (X', g'))"
  by pat_completeness auto
termination
  by (relation "measure (\<lambda>(S, st, number, X, sum0, g). nat (number + 1 - sum0))") auto

declare variateWaiting_loop.simps [simp del]

definition variateWaiting :: "'g sources \<Rightarrow> binomial \<Rightarrow> int \<Rightarrow> 'g \<Rightarrow> int \<times> 'g" where
  "variateWaiting S st number g = variateWaiting_loop S st number (- 1) 0 g"

text \<open>\<^verbatim>\<open>for (int i = 0; i != number; ++i) var += draw();\<close> for \<^verbatim>\<open>number\<close> \<open>\<ge> 0\<close>.\<close>

fun bernoulli_loop :: "('g \<Rightarrow> int \<times> 'g) \<Rightarrow> nat \<Rightarrow> int \<Rightarrow> 'g \<Rightarrow> int \<times> 'g" where
  "bernoulli_loop draw 0 var g = (var, g)"
| "bernoulli_loop draw (Suc k) var g = (let (b, g') = draw g in bernoulli_loop draw k (var + b) g')"

definition variateBernoulliSum :: "'g sources \<Rightarrow> int \<Rightarrow> real \<Rightarrow> 'g \<Rightarrow> int \<times> 'g" where
  "variateBernoulliSum S number probability g =
     (if areClose probability (1 / 2) then bernoulli_loop (bernoulliStd S) (nat number) 0 g
      else bernoulli_loop (bernoulliP S probability) (nat number) 0 g)"

definition Binomial_variate :: "'g sources \<Rightarrow> mathlib \<Rightarrow> binomial \<Rightarrow> 'g \<Rightarrow> int \<times> 'g" where
  "Binomial_variate S M st g =
     (case getIdOfUsedGenerator st of
        WAITING \<Rightarrow>
          (let (var, g') = variateWaiting S st (bin_n st) g
           in (if bin_p st \<le> 1 / 2 then var else bin_n st - var, g'))
      | REJECTION \<Rightarrow>
          (let (Y, g1) = variateRejection S M st g;
               (Y', g2) = (if pRes st > 0
                           then (let (W, g2) = variateWaiting S st (bin_n st - Y) g1 in (Y + W, g2))
                           else (Y, g1))
           in (if bin_p st > 1 / 2 then bin_n st - Y' else Y', g2))
      | BERNOULLI_SUM \<Rightarrow> variateBernoulliSum S (bin_n st) (bin_p st) g)"

text \<open>
  \<^verbatim>\<open>for (int &var : outputData) var = upd(var);\<close>: one pass over the buffer, in order, each
  slot rewritten from its old value and the draws the update makes.
\<close>

fun update_each :: "('a \<Rightarrow> 'g \<Rightarrow> 'a \<times> 'g) \<Rightarrow> 'a list \<Rightarrow> 'g \<Rightarrow> 'a list \<times> 'g" where
  "update_each upd [] g = ([], g)"
| "update_each upd (x # xs) g =
     (let (v, g') = upd x g;
          (vs, g'') = update_each upd xs g'
      in (v # vs, g''))"

definition Binomial_sample :: "'g sources \<Rightarrow> mathlib \<Rightarrow> binomial \<Rightarrow> int list \<Rightarrow> 'g \<Rightarrow> int list \<times> 'g" where
  "Binomial_sample S M st outputData g =
     (if bin_p st = 0 then (replicate (length outputData) 0, g)
      else if areClose (bin_p st) 1 then (replicate (length outputData) (bin_n st), g)
      else
        (case getIdOfUsedGenerator st of
           WAITING \<Rightarrow>
             (if bin_p st \<le> 1 / 2
              then update_each (\<lambda>var g. variateWaiting S st (bin_n st) g) outputData g
              else update_each (\<lambda>var g. let (w, g') = variateWaiting S st (bin_n st) g
                                           in (bin_n st - w, g')) outputData g)
         | REJECTION \<Rightarrow>
             (let (out1, g1) = update_each (\<lambda>var g. variateRejection S M st g) outputData g;
                  (out2, g2) = (if pRes st > 0
                                then update_each (\<lambda>var g. let (w, g') = variateWaiting S st (bin_n st - var) g
                                                             in (var + w, g')) out1 g1
                                else (out1, g1));
                  out3 = (if bin_p st > 1 / 2 then map (\<lambda>var. bin_n st - var) out2 else out2)
              in (out3, g2))
         | BERNOULLI_SUM \<Rightarrow>
             update_each (\<lambda>var g. variateBernoulliSum S (bin_n st) (bin_p st) g) outputData g))"

text \<open>\<^verbatim>\<open>for (int var : sample)\<close> converts every element of the sample to \<^verbatim>\<open>int\<close>.\<close>

fun checkValidity :: "binomial \<Rightarrow> real list \<Rightarrow> bool" where
  "checkValidity st [] = True"
| "checkValidity st (x # xs) =
     (let var = to_int x
      in if var < 0 \<or> var > bin_n st then False else checkValidity st xs)"

text \<open>The estimators return their boolean and the object after the call.\<close>

definition fitProbabilityMLE :: "mathlib \<Rightarrow> binomial \<Rightarrow> real list \<Rightarrow> bool \<times> binomial" where
  "fitProbabilityMLE M st sample =
     (if \<not> checkValidity st sample then (False, st)
      else (True, Binomial_setParameters M (bin_n st)
                    (sampleMean sample / real_of_int (bin_n st)) st))"

definition fitProbabilityMM :: "mathlib \<Rightarrow> binomial \<Rightarrow> real list \<Rightarrow> bool \<times> binomial" where
  "fitProbabilityMM M st sample = fitProbabilityMLE M st sample"

text \<open>
  \<^verbatim>\<open>BetaRand\<close>, the prior of \<^verbatim>\<open>fitProbabilityBayes\<close>, is not part of the sources: the four
  members the estimator calls are parameters, over any representation \<open>'b\<close> of the prior.
\<close>

record 'b beta_ops =
  getAlpha :: "'b \<Rightarrow> real"
  getBeta :: "'b \<Rightarrow> real"
  Beta_setParameters :: "real \<Rightarrow> real \<Rightarrow> 'b \<Rightarrow> 'b"
  Beta_Mean :: "'b \<Rightarrow> real"

text \<open>
  A prior for concrete runs: the pair of shape parameters as they were set, with the mean
  \<open>\<alpha> / (\<alpha> + \<beta>)\<close> of a Beta distribution.
\<close>

definition pair_beta :: "(real \<times> real) beta_ops" where
  "pair_beta =
     \<lparr> getAlpha = fst, getBeta = snd,
       Beta_setParameters = (\<lambda>a b pr. (a, b)),
       Beta_Mean = (\<lambda>pr. fst pr / (fst pr + snd pr)) \<rparr>"

definition fitProbabilityBayes :: "'b beta_ops \<Rightarrow> mathlib \<Rightarrow> binomial \<Rightarrow> real list \<Rightarrow> 'b \<Rightarrow> bool \<times> binomial \<times> 'b" where
  "fitProbabilityBayes B M st sample priorDistribution =
     (let N = int (length sample);
          sum0 = sum_sample sample;
          alpha0 = getAlpha B priorDistribution;
          beta0 = getBeta B priorDistribution;
          prior' = Beta_setParameters B (sum0 + alpha0)
                     (real_of_int (N * bin_n st) - sum0 + beta0) priorDistribution
      in (True, Binomial_setParameters M (bin_n st) (Beta_Mean B prior') st, prior'))"

section \<open>Concrete instances\<close>

text \<open>
  A \<open>mathlib\<close> for concrete runs: the real functions for \<^verbatim>\<open>cmath\<close>, the factorial and the
  binomial coefficient on whole arguments, the midpoint rule on the whole interval for the
  quadrature, and a root finder that makes no step: it succeeds when the starting point is a
  root already. \<^verbatim>\<open>tgamma\<close> and \<^verbatim>\<open>lowerIncGamma\<close> are exact at whole shapes and at shape
  \<open>1\<close> only.
\<close>

definition test_mathlib :: mathlib where
  "test_mathlib =
     \<lparr> c_pow = (\<lambda>x y. x powr y),
       c_exp = exp,
       c_log = ln,
       c_sqrt = sqrt,
       c_tgamma = (\<lambda>x. fact (nat \<lfloor>x\<rfloor> - 1)),
       factorial = (\<lambda>x. fact (nat \<lfloor>x\<rfloor>)),
       binomialCoef = (\<lambda>n k. real (nat n choose nat k)),
       lowerIncGamma = (\<lambda>a x. 1 - exp (- x)),
       integral = (\<lambda>g a b eps. (b - a) * g ((a + b) / 2)),
       findRoot = (\<lambda>g g' x0. (g x0 = 0, x0)) \<rparr>"

text \<open>The uniform distribution on \<open>[0, 1]\<close> as a continuous distribution.\<close>

definition unit_uniform :: cdist where
  "unit_uniform =
     \<lparr> cd_f = (\<lambda>x. if 0 \<le> x \<and> x \<le> 1 then 1 else 0),
       cd_F = (\<lambda>x. if x < 0 then 0 else if x > 1 then 1 else x),
       cd_Mean = Finite (1 / 2),
       cd_Variance = 1 / 12 \<rparr>"

text \<open>
  Objects before their first \<^verbatim>\<open>setParameters\<close>, for concrete runs: every member is \<open>0\<close>.
\<close>

definition blank_gamma :: gamma where
  "blank_gamma =
     \<lparr> alpha = 0, theta = 0, beta = 0, alphaInv = 0, cdfCoef = 0, pdfCoef = 0, variateCoef = 0,
       gen_m = 0, gen_s_2 = 0, gen_s = 0, gen_d = 0, gen_b = 0, gen_w = 0, gen_v = 0, gen_c = 0 \<rparr>"

definition blank_binomial :: binomial where
  "blank_binomial =
     \<lparr> bin_n = 0, bin_p = 0, bin_q = 0, np = 0, minpq = 0, npFloor = 0, pFloor = 0, pRes = 0,
       nqFloor = 0, delta1 = 0, delta2 = 0, sigma1 = 0, sigma2 = 0, bin_c = 0,
       a1 = 0, a2 = 0, a3 = 0, a4 = 0, coefa3 = 0, coefa4 = 0,
       logPFloor = 0, logQFloor = 0, logPnpInv = 0, G_prob = 0 \<rparr>"

section \<open>Properties of ContinuousDistribution\<close>

lemma foldl_index_update:
  "n \<le> length x \<Longrightarrow> n \<le> length y \<Longrightarrow>
   foldl (\<lambda>y i. y[i := f (x ! i)]) y [0..<n] = map f (take n x) @ drop n y"
proof (induction n)
  case 0
  then show ?case by simp
next
  case (Suc n)
  then have n: "n < length x" "n < length y" by simp_all
  have "foldl (\<lambda>y i. y[i := f (x ! i)]) y [0..<Suc n]
        = (map f (take n x) @ drop n y)[n := f (x ! n)]"
    using Suc by simp
  also have "\<dots> = map f (take n x) @ (drop n y)[0 := f (x ! n)]"
    using n by (simp add: list_update_append)
  also have "drop n y = y ! n # drop (Suc n) y"
    using n by (simp add: Cons_nth_drop_Suc)
  also have "map f (take n x) @ (y ! n # drop (Suc n) y)[0 := f (x ! n)]
             = map f (take (Suc n) x) @ drop (Suc n) y"
    using n by (simp add: take_Suc_conv_app_nth)
  finally show ?case .
qed

lemma ProbabilityDensityFunction_fits:
  "length x \<le> length y \<Longrightarrow>
   ProbabilityDensityFunction D x y = map (cd_f D) x @ drop (length x) y"
  by (simp add: ProbabilityDensityFunction_def Let_def foldl_index_update)

text \<open>
  Claim C9. \<^verbatim>\<open>ProbabilityDensityFunction(x, y)\<close>: when \<open>y\<close> has at least as many elements as
  \<open>x\<close>, the result has the length of \<open>y\<close>, holds the density of \<open>x[i]\<close> at every position
  \<open>i\<close> below the size of \<open>x\<close>, and the elements of \<open>y\<close> from that size on are unchanged; when
  \<open>y\<close> is shorter than \<open>x\<close>, \<open>y\<close> is returned unchanged.
\<close>

theorem ProbabilityDensityFunction_frame:
  "(length x \<le> length y \<longrightarrow>
      length (ProbabilityDensityFunction D x y) = length y
      \<and> (\<forall>i < length x. ProbabilityDensityFunction D x y ! i = cd_f D (x ! i))
      \<and> (\<forall>i. length x \<le> i \<and> i < length y \<longrightarrow> ProbabilityDensityFunction D x y ! i = y ! i))
   \<and> (length y < length x \<longrightarrow> ProbabilityDensityFunction D x y = y)"
proof (intro conjI impI allI)
  assume le: "length x \<le> length y"
  note eq = ProbabilityDensityFunction_fits [OF le, of D]
  show "length (ProbabilityDensityFunction D x y) = length y"
    using le by (simp add: eq)
  show "ProbabilityDensityFunction D x y ! i = cd_f D (x ! i)" if "i < length x" for i
    using that by (simp add: eq nth_append)
  show "ProbabilityDensityFunction D x y ! i = y ! i" if "length x \<le> i \<and> i < length y" for i
    using that by (simp add: eq nth_append)
next
  assume "length y < length x"
  then show "ProbabilityDensityFunction D x y = y"
    by (simp add: ProbabilityDensityFunction_def)
qed

theorem ProbabilityDensityFunction_frame_witness:
  "length (ProbabilityDensityFunction unit_uniform [1, 2] [5, 5, 9]) = 3
   \<and> ProbabilityDensityFunction unit_uniform [1, 2] [5, 5, 9] ! 0 = 1
   \<and> ProbabilityDensityFunction unit_uniform [1, 2] [5, 5, 9] ! 1 = 0
   \<and> ProbabilityDensityFunction unit_uniform [1, 2] [5, 5, 9] ! 2 = 9
   \<and> ProbabilityDensityFunction unit_uniform [1, 2] [5] = [5]"
proof -
  have a: "length [1, 2 :: real] \<le> length [5, 5, 9 :: real]" by simp
  have b: "length [5 :: real] < length [1, 2 :: real]" by simp
  note big = ProbabilityDensityFunction_frame [of "[1, 2]" "[5, 5, 9]" unit_uniform]
  note small = ProbabilityDensityFunction_frame [of "[1, 2]" "[5]" unit_uniform]
  from big a have len: "length (ProbabilityDensityFunction unit_uniform [1, 2] [5, 5, 9]) = 3"
    by simp
  from big a have w: "\<forall>i<2. ProbabilityDensityFunction unit_uniform [1, 2] [5, 5, 9] ! i
                        = cd_f unit_uniform ([1, 2] ! i)"
    by simp
  from big a have k: "\<forall>i. 2 \<le> i \<and> i < 3 \<longrightarrow>
                        ProbabilityDensityFunction unit_uniform [1, 2] [5, 5, 9] ! i = [5, 5, 9] ! i"
    by simp
  from w have w0: "ProbabilityDensityFunction unit_uniform [1, 2] [5, 5, 9] ! 0 = 1"
    by (simp add: unit_uniform_def)
  from w have "ProbabilityDensityFunction unit_uniform [1, 2] [5, 5, 9] ! 1
               = cd_f unit_uniform ([1, 2] ! 1)"
    by (metis one_less_numeral_iff semiring_norm(76))
  then have w1: "ProbabilityDensityFunction unit_uniform [1, 2] [5, 5, 9] ! 1 = 0"
    by (simp add: unit_uniform_def)
  from k have k2: "ProbabilityDensityFunction unit_uniform [1, 2] [5, 5, 9] ! 2 = 9"
    by simp
  from small b have s: "ProbabilityDensityFunction unit_uniform [1, 2] [5] = [5]"
    by simp
  from len w0 w1 k2 s show ?thesis by simp
qed

text \<open>
  Claim C4. \<^verbatim>\<open>Quantile(p)\<close> is \<^verbatim>\<open>NAN\<close> when \<open>p < 0\<close> or \<open>p > 1\<close>. Otherwise it runs Newton's
  root search on \<open>F(x) - p\<close> with the density as the derivative, started at the mean, or at
  \<open>0\<close> when the mean is \<^verbatim>\<open>NAN\<close> or infinite; it returns the root when the search reports
  success and \<open>+\<infinity>\<close> when it reports failure.
\<close>

theorem Quantile_cases:
  "(p < 0 \<or> p > 1 \<longrightarrow> Quantile M D p = NaN)
   \<and> (\<not> (p < 0 \<or> p > 1) \<longrightarrow>
        (let seed = (case cd_Mean D of Finite m \<Rightarrow> m | _ \<Rightarrow> 0);
             r = findRoot M (\<lambda>x. cd_F D x - p) (\<lambda>x. cd_f D x) seed
         in Quantile M D p = (if fst r then Finite (snd r) else PosInf)))"
proof -
  have seed: "(if isnan (cd_Mean D) \<or> isinf (cd_Mean D) then 0
               else (case cd_Mean D of Finite r \<Rightarrow> r | _ \<Rightarrow> 0))
              = (case cd_Mean D of Finite m \<Rightarrow> m | _ \<Rightarrow> 0)"
    by (cases "cd_Mean D") simp_all
  show ?thesis
    unfolding Quantile_def Let_def seed
    by (auto split: prod.splits bool.splits)
qed

theorem Quantile_cases_witness:
  "Quantile test_mathlib unit_uniform 2 = NaN
   \<and> Quantile test_mathlib unit_uniform (1 / 2) = Finite (1 / 2)
   \<and> Quantile test_mathlib unit_uniform (1 / 4) = PosInf"
  using Quantile_cases [of 2 test_mathlib unit_uniform]
        Quantile_cases [of "1 / 2" test_mathlib unit_uniform]
        Quantile_cases [of "1 / 4" test_mathlib unit_uniform]
  by (simp add: test_mathlib_def unit_uniform_def Let_def)

lemma integrand_eq: "(if y = 0 then 0 else y * c) = y * (c::real)"
  by simp

lemma EV_lower_loop_step:
  "EV_lower_loop D funPtr var iter lb =
     (if \<bar>funPtr (lb - var) * cd_f D (lb - var)\<bar> > epsilon then
        (if iter + 1 < maxIter then EV_lower_loop D funPtr var (iter + 1) (lb - var)
         else (iter + 1, lb - var))
      else (iter, lb - var))"
  by (subst EV_lower_loop.simps) (simp only: Let_def integrand_eq)

lemma EV_upper_loop_step:
  "EV_upper_loop D funPtr var iter ub =
     (if \<bar>funPtr (ub + var) * cd_f D (ub + var)\<bar> > epsilon then
        (if iter + 1 < maxIter then EV_upper_loop D funPtr var (iter + 1) (ub + var)
         else (iter + 1, ub + var))
      else (iter, ub + var))"
  by (subst EV_upper_loop.simps) (simp only: Let_def integrand_eq)

lemma EV_lower_loop_hit:
  "\<bar>funPtr (lb - real (Suc k) * var) * cd_f D (lb - real (Suc k) * var)\<bar> \<le> epsilon \<Longrightarrow>
   (\<And>j. 1 \<le> j \<Longrightarrow> j \<le> k \<Longrightarrow>
      \<bar>funPtr (lb - real j * var) * cd_f D (lb - real j * var)\<bar> > epsilon) \<Longrightarrow>
   iter + Suc k \<le> maxIter \<Longrightarrow>
   EV_lower_loop D funPtr var iter lb = (iter + k, lb - real (Suc k) * var)"
proof (induction k arbitrary: iter lb)
  case 0
  then show ?case
    by (subst EV_lower_loop_step) simp
next
  case (Suc k)
  have big: "\<bar>funPtr (lb - var) * cd_f D (lb - var)\<bar> > epsilon"
    using Suc.prems(2) [of 1] by simp
  have shift: "lb - var - real j * var = lb - real (Suc j) * var" for j
    by (simp add: algebra_simps)
  have "EV_lower_loop D funPtr var (iter + 1) (lb - var)
        = (iter + 1 + k, lb - var - real (Suc k) * var)"
  proof (rule Suc.IH)
    show "\<bar>funPtr (lb - var - real (Suc k) * var) * cd_f D (lb - var - real (Suc k) * var)\<bar>
          \<le> epsilon"
      using Suc.prems(1) by (simp only: shift)
    show "epsilon < \<bar>funPtr (lb - var - real j * var) * cd_f D (lb - var - real j * var)\<bar>"
      if "1 \<le> j" "j \<le> k" for j
      using Suc.prems(2) [of "Suc j"] that unfolding shift by simp
    show "iter + 1 + Suc k \<le> maxIter"
      using Suc.prems(3) by simp
  qed
  moreover have "iter + 1 < maxIter"
    using Suc.prems(3) by simp
  ultimately show ?case
    using big by (subst EV_lower_loop_step) (simp add: algebra_simps)
qed


lemma EV_lower_loop_exhaust:
  "(\<And>j. 1 \<le> j \<Longrightarrow> j \<le> Suc k \<Longrightarrow>
      \<bar>funPtr (lb - real j * var) * cd_f D (lb - real j * var)\<bar> > epsilon) \<Longrightarrow>
   iter + Suc k = maxIter \<Longrightarrow>
   fst (EV_lower_loop D funPtr var iter lb) = maxIter"
proof (induction k arbitrary: iter lb)
  case 0
  have "\<bar>funPtr (lb - var) * cd_f D (lb - var)\<bar> > epsilon"
    using "0.prems"(1) [of 1] by simp
  then show ?case
    using "0.prems"(2) by (subst EV_lower_loop_step) simp
next
  case (Suc k)
  have big: "\<bar>funPtr (lb - var) * cd_f D (lb - var)\<bar> > epsilon"
    using Suc.prems(1) [of 1] by simp
  have shift: "lb - var - real j * var = lb - real (Suc j) * var" for j
    by (simp add: algebra_simps)
  have "fst (EV_lower_loop D funPtr var (iter + 1) (lb - var)) = maxIter"
  proof (rule Suc.IH)
    show "epsilon < \<bar>funPtr (lb - var - real j * var) * cd_f D (lb - var - real j * var)\<bar>"
      if "1 \<le> j" "j \<le> Suc k" for j
      using Suc.prems(1) [of "Suc j"] that unfolding shift by simp
    show "iter + 1 + Suc k = maxIter"
      using Suc.prems(2) by simp
  qed
  moreover have "iter + 1 < maxIter"
    using Suc.prems(2) by simp
  ultimately show ?case
    using big by (subst EV_lower_loop_step) simp
qed

lemma EV_upper_loop_mirror:
  "EV_upper_loop D funPtr var iter b = EV_lower_loop D funPtr (- var) iter b"
proof (induction "maxIter - iter" arbitrary: iter b)
  case 0
  then have "\<not> iter + 1 < maxIter" by simp
  then show ?case
    by (subst EV_upper_loop_step, subst EV_lower_loop_step) simp
next
  case (Suc k)
  have "EV_upper_loop D funPtr var (iter + 1) (b + var)
        = EV_lower_loop D funPtr (- var) (iter + 1) (b + var)"
    if "iter + 1 < maxIter"
    using Suc.hyps(1) [of "iter + 1" "b + var"] Suc.hyps(2) that by simp
  then show ?case
    by (subst EV_upper_loop_step, subst EV_lower_loop_step) simp
qed

lemma integrand_plain:
  "(\<lambda>x. let y = funPtr x in if y = 0 then 0 else y * cd_f D x) = (\<lambda>x. funPtr x * cd_f D x)"
  by (rule ext) (simp add: Let_def)

text \<open>
  Claim C7. \<^verbatim>\<open>ExpectedValue(g, s)\<close> for a distribution with finite variance \<open>v\<close>: the lower
  boundary is \<open>s - k v\<close> for the first \<open>k\<close> in \<open>1, \<dots>, 1000\<close> with \<open>|g(x) f(x)| \<le> 10\<^sup>-\<^sup>1\<^sup>0\<close> at
  that point, the upper boundary is found the same way at \<open>s + k v\<close>, independently, and the
  result is the quadrature of \<open>g(x) f(x)\<close> between the two with tolerance \<open>10\<^sup>-\<^sup>1\<^sup>0\<close>. When no
  \<open>k\<close> in \<open>1, \<dots>, 1000\<close> meets the threshold in one of the directions, the result is \<^verbatim>\<open>NAN\<close>.
\<close>

theorem ExpectedValue_bounds:
  "(\<forall>kl ku.
        1 \<le> kl \<and> kl \<le> 1000
        \<and> \<bar>funPtr (s - real kl * cd_Variance D) * cd_f D (s - real kl * cd_Variance D)\<bar> \<le> 1 / 10 ^ 10
        \<and> (\<forall>j. 1 \<le> j \<and> j < kl \<longrightarrow>
              \<bar>funPtr (s - real j * cd_Variance D) * cd_f D (s - real j * cd_Variance D)\<bar> > 1 / 10 ^ 10)
        \<and> 1 \<le> ku \<and> ku \<le> 1000
        \<and> \<bar>funPtr (s + real ku * cd_Variance D) * cd_f D (s + real ku * cd_Variance D)\<bar> \<le> 1 / 10 ^ 10
        \<and> (\<forall>j. 1 \<le> j \<and> j < ku \<longrightarrow>
              \<bar>funPtr (s + real j * cd_Variance D) * cd_f D (s + real j * cd_Variance D)\<bar> > 1 / 10 ^ 10)
        \<longrightarrow> ExpectedValue M D funPtr s
              = Finite (integral M (\<lambda>x. funPtr x * cd_f D x)
                          (s - real kl * cd_Variance D) (s + real ku * cd_Variance D) (1 / 10 ^ 10)))
   \<and> ((\<forall>j. 1 \<le> j \<and> j \<le> 1000 \<longrightarrow>
          \<bar>funPtr (s - real j * cd_Variance D) * cd_f D (s - real j * cd_Variance D)\<bar> > 1 / 10 ^ 10)
        \<longrightarrow> ExpectedValue M D funPtr s = NaN)
   \<and> ((\<forall>j. 1 \<le> j \<and> j \<le> 1000 \<longrightarrow>
          \<bar>funPtr (s + real j * cd_Variance D) * cd_f D (s + real j * cd_Variance D)\<bar> > 1 / 10 ^ 10)
        \<longrightarrow> ExpectedValue M D funPtr s = NaN)"
proof (intro conjI allI impI)
  fix kl ku :: nat
  assume a: "1 \<le> kl \<and> kl \<le> 1000
        \<and> \<bar>funPtr (s - real kl * cd_Variance D) * cd_f D (s - real kl * cd_Variance D)\<bar> \<le> 1 / 10 ^ 10
        \<and> (\<forall>j. 1 \<le> j \<and> j < kl \<longrightarrow>
              \<bar>funPtr (s - real j * cd_Variance D) * cd_f D (s - real j * cd_Variance D)\<bar> > 1 / 10 ^ 10)
        \<and> 1 \<le> ku \<and> ku \<le> 1000
        \<and> \<bar>funPtr (s + real ku * cd_Variance D) * cd_f D (s + real ku * cd_Variance D)\<bar> \<le> 1 / 10 ^ 10
        \<and> (\<forall>j. 1 \<le> j \<and> j < ku \<longrightarrow>
              \<bar>funPtr (s + real j * cd_Variance D) * cd_f D (s + real j * cd_Variance D)\<bar> > 1 / 10 ^ 10)"
  obtain kl' ku' where k: "kl = Suc kl'" "ku = Suc ku'"
    using a by (cases kl; cases ku) simp_all
  have lo: "EV_lower_loop D funPtr (cd_Variance D) 0 s = (0 + kl', s - real (Suc kl') * cd_Variance D)"
    using a unfolding k by (intro EV_lower_loop_hit) (simp_all add: epsilon_def maxIter_def)
  have up: "EV_lower_loop D funPtr (- cd_Variance D) 0 s
            = (0 + ku', s - real (Suc ku') * (- cd_Variance D))"
    using a unfolding k by (intro EV_lower_loop_hit) (simp_all add: epsilon_def maxIter_def)
  have "kl' \<noteq> maxIter" "ku' \<noteq> maxIter"
    using a k by (simp_all add: maxIter_def)
  then show "ExpectedValue M D funPtr s
        = Finite (integral M (\<lambda>x. funPtr x * cd_f D x)
                    (s - real kl * cd_Variance D) (s + real ku * cd_Variance D) (1 / 10 ^ 10))"
    unfolding ExpectedValue_def EV_upper_loop_mirror integrand_plain
    by (simp add: lo up k epsilon_def Let_def)
next
  assume a: "\<forall>j. 1 \<le> j \<and> j \<le> 1000 \<longrightarrow>
          \<bar>funPtr (s - real j * cd_Variance D) * cd_f D (s - real j * cd_Variance D)\<bar> > 1 / 10 ^ 10"
  have "fst (EV_lower_loop D funPtr (cd_Variance D) 0 s) = maxIter"
    using a by (intro EV_lower_loop_exhaust [where k = 999]) (simp_all add: epsilon_def maxIter_def)
  then show "ExpectedValue M D funPtr s = NaN"
    unfolding ExpectedValue_def by (simp add: split_def Let_def)
next
  assume a: "\<forall>j. 1 \<le> j \<and> j \<le> 1000 \<longrightarrow>
          \<bar>funPtr (s + real j * cd_Variance D) * cd_f D (s + real j * cd_Variance D)\<bar> > 1 / 10 ^ 10"
  have "fst (EV_lower_loop D funPtr (- cd_Variance D) 0 s) = maxIter"
    using a by (intro EV_lower_loop_exhaust [where k = 999]) (simp_all add: epsilon_def maxIter_def)
  then show "ExpectedValue M D funPtr s = NaN"
    unfolding ExpectedValue_def EV_upper_loop_mirror by (simp add: split_def Let_def)
qed

theorem ExpectedValue_bounds_witness:
  "ExpectedValue test_mathlib unit_uniform (\<lambda>x. 1) (1 / 2) = Finite (7 / 6)
   \<and> ExpectedValue test_mathlib (unit_uniform\<lparr>cd_f := \<lambda>x. 1\<rparr>) (\<lambda>x. 1) (1 / 2) = NaN"
proof -
  note hit = ExpectedValue_bounds [of "\<lambda>x. 1" "1 / 2" unit_uniform test_mathlib,
      THEN conjunct1, rule_format, of 7 7]
  note flat = ExpectedValue_bounds [of "\<lambda>x. 1" "1 / 2" "unit_uniform\<lparr>cd_f := \<lambda>x. 1\<rparr>" test_mathlib,
      THEN conjunct2, THEN conjunct1, THEN mp]
  have var: "cd_Variance unit_uniform = 1 / 12"
    by (simp add: unit_uniform_def)
  have inside: "cd_f unit_uniform x = 1" if "0 \<le> x" "x \<le> 1" for x
    using that by (simp add: unit_uniform_def)
  have outside: "cd_f unit_uniform x = 0" if "x < 0 \<or> 1 < x" for x
    using that by (auto simp: unit_uniform_def)
  have lo: "\<bar>(1::real) * cd_f unit_uniform (1 / 2 - real j * cd_Variance unit_uniform)\<bar> > 1 / 10 ^ 10"
    if "1 \<le> j \<and> j < (7::nat)" for j
  proof -
    from that have "real j \<le> 6" by simp
    then have "cd_f unit_uniform (1 / 2 - real j * cd_Variance unit_uniform) = 1"
      unfolding var by (intro inside) simp_all
    then show ?thesis by simp
  qed
  have up: "\<bar>(1::real) * cd_f unit_uniform (1 / 2 + real j * cd_Variance unit_uniform)\<bar> > 1 / 10 ^ 10"
    if "1 \<le> j \<and> j < (7::nat)" for j
  proof -
    from that have "real j \<le> 6" by simp
    then have "cd_f unit_uniform (1 / 2 + real j * cd_Variance unit_uniform) = 1"
      unfolding var by (intro inside) simp_all
    then show ?thesis by simp
  qed
  have lo7: "\<bar>(1::real) * cd_f unit_uniform (1 / 2 - real (7::nat) * cd_Variance unit_uniform)\<bar> \<le> 1 / 10 ^ 10"
    unfolding var by (subst outside) simp_all
  have up7: "\<bar>(1::real) * cd_f unit_uniform (1 / 2 + real (7::nat) * cd_Variance unit_uniform)\<bar> \<le> 1 / 10 ^ 10"
    unfolding var by (subst outside) simp_all
  have "ExpectedValue test_mathlib unit_uniform (\<lambda>x. 1) (1 / 2)
        = Finite (integral test_mathlib (\<lambda>x. 1 * cd_f unit_uniform x)
                    (1 / 2 - real (7::nat) * cd_Variance unit_uniform)
                    (1 / 2 + real (7::nat) * cd_Variance unit_uniform) (1 / 10 ^ 10))"
    by (rule hit) (intro conjI allI impI lo up lo7 up7; simp)
  also have "\<dots> = Finite (7 / 6)"
    unfolding var by (simp add: test_mathlib_def inside)
  finally have a: "ExpectedValue test_mathlib unit_uniform (\<lambda>x. 1) (1 / 2) = Finite (7 / 6)" .
  have b: "ExpectedValue test_mathlib (unit_uniform\<lparr>cd_f := \<lambda>x. 1\<rparr>) (\<lambda>x. 1) (1 / 2) = NaN"
    by (rule flat) simp
  from a b show ?thesis by simp
qed

section \<open>Properties of GammaRand\<close>

lemma c_round_one: "c_round 1 = 1"
  by (simp add: c_round_def)

lemma areClose_one_one: "areClose 1 1"
  by (simp add: areClose_def areClose_eps_def)

lemma Gamma_setParameters_clamp_shape:
  "shape \<le> 0 \<Longrightarrow> Gamma_setParameters M shape scale st = Gamma_setParameters M 1 scale st"
  by (simp add: Gamma_setParameters_def)

lemma Gamma_setParameters_clamp_scale:
  "scale \<le> 0 \<Longrightarrow> Gamma_setParameters M shape scale st = Gamma_setParameters M shape 1 st"
  by (simp add: Gamma_setParameters_def)

lemma setConstantsForGenerator_keeps:
  "alpha (setConstantsForGenerator M st) = alpha st"
  "theta (setConstantsForGenerator M st) = theta st"
  "beta (setConstantsForGenerator M st) = beta st"
  "alphaInv (setConstantsForGenerator M st) = alphaInv st"
  "cdfCoef (setConstantsForGenerator M st) = cdfCoef st"
  "pdfCoef (setConstantsForGenerator M st) = pdfCoef st"
  "variateCoef (setConstantsForGenerator M st) = variateCoef st"
  by (simp_all add: setConstantsForGenerator_def Let_def)

lemma Gamma_setParameters_fields:
  "theta (Gamma_setParameters M shape scale st) = (if scale \<le> 0 then 1 else scale)"
  "beta (Gamma_setParameters M shape scale st) = 1 / theta (Gamma_setParameters M shape scale st)"
  "alphaInv (Gamma_setParameters M shape scale st) = 1 / (if shape \<le> 0 then 1 else shape)"
  "variateCoef (Gamma_setParameters M shape scale st)
     = alphaInv (Gamma_setParameters M shape scale st) + M_1_E"
  "pdfCoef (Gamma_setParameters M shape scale st)
     = cdfCoef (Gamma_setParameters M shape scale st)
       * c_pow M (beta (Gamma_setParameters M shape scale st))
                 (alpha (Gamma_setParameters M shape scale st))"
  by (simp_all add: Gamma_setParameters_def Let_def setConstantsForGenerator_keeps)

lemma Gamma_setParameters_shape_one:
  "alpha (Gamma_setParameters M 1 scale st) = 1"
  "cdfCoef (Gamma_setParameters M 1 scale st) = 1 / factorial M 0"
  by (simp_all add: Gamma_setParameters_def Let_def c_round_one areClose_one_one)

lemma Gamma_f_prior_object:
  "Gamma_f M (Gamma_setParameters M shape scale st) x
   = Gamma_f M (Gamma_setParameters M shape scale st') x"
  by (simp add: Gamma_f_def Gamma_setParameters_def Let_def setConstantsForGenerator_keeps)

text \<open>
  Claim C5. \<^verbatim>\<open>GammaRand::setParameters\<close> is total. With a shape \<open>\<le> 0\<close> it leaves the object
  exactly as a call with shape \<open>1\<close> does; its density agrees everywhere with the density of
  any object configured with shape \<open>1\<close> and the same scale; and the shape, the inverse shape
  and the cdf coefficient are those of shape \<open>1\<close>. With a scale \<open>\<le> 0\<close> it
  leaves the object exactly as a call with scale \<open>1\<close> does, with scale and rate \<open>1\<close>. After
  every call the rate is the inverse of the scale, and the pdf coefficient and the variate
  coefficient are computed from the stored shape, rate, inverse shape and cdf coefficient.
\<close>

theorem Gamma_setParameters_clamps:
  "(shape \<le> 0 \<longrightarrow>
      Gamma_setParameters M shape scale st = Gamma_setParameters M 1 scale st
      \<and> (\<forall>st' x. Gamma_f M (Gamma_setParameters M shape scale st) x
                  = Gamma_f M (Gamma_setParameters M 1 scale st') x)
      \<and> alpha (Gamma_setParameters M shape scale st) = 1
      \<and> alphaInv (Gamma_setParameters M shape scale st) = 1
      \<and> cdfCoef (Gamma_setParameters M shape scale st) = 1 / factorial M 0)
   \<and> (scale \<le> 0 \<longrightarrow>
      Gamma_setParameters M shape scale st = Gamma_setParameters M shape 1 st
      \<and> theta (Gamma_setParameters M shape scale st) = 1
      \<and> beta (Gamma_setParameters M shape scale st) = 1)
   \<and> beta (Gamma_setParameters M shape scale st) = 1 / theta (Gamma_setParameters M shape scale st)
   \<and> variateCoef (Gamma_setParameters M shape scale st)
       = alphaInv (Gamma_setParameters M shape scale st) + M_1_E
   \<and> pdfCoef (Gamma_setParameters M shape scale st)
       = cdfCoef (Gamma_setParameters M shape scale st)
         * c_pow M (beta (Gamma_setParameters M shape scale st))
                   (alpha (Gamma_setParameters M shape scale st))"
proof (intro conjI impI allI)
  assume s: "shape \<le> 0"
  note eq = Gamma_setParameters_clamp_shape [OF s, of M scale st]
  show "Gamma_setParameters M shape scale st = Gamma_setParameters M 1 scale st"
    by (rule eq)
  show "Gamma_f M (Gamma_setParameters M shape scale st) x
        = Gamma_f M (Gamma_setParameters M 1 scale st') x" for st' x
    unfolding eq by (rule Gamma_f_prior_object)
  show "alpha (Gamma_setParameters M shape scale st) = 1"
    by (simp only: eq Gamma_setParameters_shape_one)
  show "alphaInv (Gamma_setParameters M shape scale st) = 1"
    using s by (simp add: Gamma_setParameters_fields)
  show "cdfCoef (Gamma_setParameters M shape scale st) = 1 / factorial M 0"
    by (simp only: eq Gamma_setParameters_shape_one)
next
  assume s: "scale \<le> 0"
  show "Gamma_setParameters M shape scale st = Gamma_setParameters M shape 1 st"
    by (rule Gamma_setParameters_clamp_scale [OF s])
  show "theta (Gamma_setParameters M shape scale st) = 1"
    using s by (simp add: Gamma_setParameters_fields)
  then show "beta (Gamma_setParameters M shape scale st) = 1"
    by (simp add: Gamma_setParameters_fields)
qed (rule Gamma_setParameters_fields)+

theorem Gamma_setParameters_clamps_witness:
  "Gamma_setParameters test_mathlib (- 1) 2 blank_gamma = Gamma_setParameters test_mathlib 1 2 blank_gamma
   \<and> Gamma_f test_mathlib (Gamma_setParameters test_mathlib (- 1) 2 blank_gamma) 3
       = Gamma_f test_mathlib (Gamma_setParameters test_mathlib 1 2 (blank_gamma\<lparr>gen_m := 7\<rparr>)) 3
   \<and> alpha (Gamma_setParameters test_mathlib (- 1) 2 blank_gamma) = 1
   \<and> alphaInv (Gamma_setParameters test_mathlib (- 1) 2 blank_gamma) = 1
   \<and> cdfCoef (Gamma_setParameters test_mathlib (- 1) 2 blank_gamma) = 1
   \<and> Gamma_setParameters test_mathlib 7 (- 2) blank_gamma = Gamma_setParameters test_mathlib 7 1 blank_gamma
   \<and> theta (Gamma_setParameters test_mathlib 7 (- 2) blank_gamma) = 1
   \<and> beta (Gamma_setParameters test_mathlib 7 (- 2) blank_gamma) = 1"
proof -
  have a: "(- 1 :: real) \<le> 0" and b: "(- 2 :: real) \<le> 0"
    by simp_all
  note t1 = Gamma_setParameters_clamps [of "- 1" test_mathlib 2 blank_gamma,
      THEN conjunct1, THEN mp, OF a]
  note t2 = Gamma_setParameters_clamps [of 7 test_mathlib "- 2" blank_gamma,
      THEN conjunct2, THEN conjunct1, THEN mp, OF b]
  have f0: "factorial test_mathlib 0 = 1"
    by (simp add: test_mathlib_def)
  note e1 = t1 [THEN conjunct1]
  note e2 = t1 [THEN conjunct2, THEN conjunct1,
      THEN spec [where x = "blank_gamma\<lparr>gen_m := 7\<rparr>"], THEN spec [where x = 3]]
  note e3 = t1 [THEN conjunct2, THEN conjunct2, THEN conjunct1]
  note e4 = t1 [THEN conjunct2, THEN conjunct2, THEN conjunct2, THEN conjunct1]
  have e5: "cdfCoef (Gamma_setParameters test_mathlib (- 1) 2 blank_gamma) = 1"
    using t1 [THEN conjunct2, THEN conjunct2, THEN conjunct2, THEN conjunct2] f0 by simp
  note e6 = t2 [THEN conjunct1]
  note e7 = t2 [THEN conjunct2, THEN conjunct1]
  note e8 = t2 [THEN conjunct2, THEN conjunct2]
  show ?thesis
    by (intro conjI) (fact e1, fact e2, fact e3, fact e4, fact e5, fact e6, fact e7, fact e8)
qed

lemma exp_sum_loop_unfold:
  "exp_sum_loop S bound i rv g =
     (if real_of_int i < bound then
        exp_sum_loop S bound (i + 1) (rv + fst (expStd S g)) (snd (expStd S g))
      else (rv, g))"
  by (subst exp_sum_loop.simps) (simp add: split_def Let_def)

lemma Gamma_variate_half_integer_branch:
  "alpha st < 5 \<Longrightarrow> \<not> areClose (alpha st) (c_round (alpha st)) \<Longrightarrow>
   areClose (alpha st - 1 / 2) (c_round (alpha st)) \<Longrightarrow>
   Gamma_variate S M st g = scaled st (finite_draw (variateForIntegerShape S st g))"
  by (simp add: Gamma_variate_def Let_def)

lemma Gamma_sample_half_integer_branch:
  "alpha st < 5 \<Longrightarrow> \<not> areClose (alpha st) (c_round (alpha st)) \<Longrightarrow>
   areClose (alpha st - 1 / 2) (c_round (alpha st)) \<Longrightarrow>
   Gamma_sample S M st outputData g
     = fill_each (\<lambda>g. scaled st (finite_draw (variateForHalfIntegerShape S st g))) outputData g"
  by (simp add: Gamma_sample_def Let_def)

lemma Gamma_sample_other_regimes:
  "\<not> (alpha st < 5 \<and> \<not> areClose (alpha st) (c_round (alpha st))
       \<and> areClose (alpha st - 1 / 2) (c_round (alpha st))) \<Longrightarrow>
   Gamma_sample S M st outputData g = fill_each (Gamma_variate S M st) outputData g"
  unfolding Gamma_sample_def Gamma_variate_def Let_def
  by (auto intro!: arg_cong [where f = "\<lambda>d. fill_each d outputData g"])

lemma near_half_tests:
  "c_round (24999999 / 10000000) = 2"
  "\<not> areClose (24999999 / 10000000) 2"
  "areClose (19999999 / 10000000) 2"
  by (simp_all add: c_round_def areClose_def areClose_eps_def)

lemma near_half_state:
  "alpha (GammaRand M (24999999 / 10000000) 1 st0) = 24999999 / 10000000"
  "theta (GammaRand M (24999999 / 10000000) 1 st0) = 1"
  by (simp_all add: GammaRand_def Gamma_setParameters_def Let_def near_half_tests)

lemma counting_sources_draws:
  "expStd (counting_sources e z u k) g = (e, Suc g)"
  "normalStd (counting_sources e z u k) g = (z, Suc g)"
  "uniformStd (counting_sources e z u k) g = (u, Suc g)"
  "uniformAB (counting_sources e z u k) a b g = (a + (b - a) * u, Suc g)"
  "bernoulliStd (counting_sources e z u k) g = (0, Suc g)"
  "bernoulliP (counting_sources e z u k) pr g = (0, Suc g)"
  "geometric (counting_sources e z u k) pr g = (k, Suc g)"
  by (simp_all add: counting_sources_def)

lemma near_half_integer_draw:
  "variateForIntegerShape (counting_sources 1 2 0 0) (GammaRand M (24999999 / 10000000) 1 st0) g
   = (3, Suc (Suc (Suc g)))"
  unfolding variateForIntegerShape_def near_half_state
  apply (subst exp_sum_loop_unfold, simp add: counting_sources_draws)
  apply (subst exp_sum_loop_unfold, simp add: counting_sources_draws)
  apply (subst exp_sum_loop_unfold, simp add: counting_sources_draws)
  apply (subst exp_sum_loop_unfold, simp add: counting_sources_draws)
  done

lemma near_half_half_integer_draw:
  "variateForHalfIntegerShape (counting_sources 1 2 0 0) (GammaRand M (24999999 / 10000000) 1 st0) g
   = (4, Suc (Suc (Suc g)))"
  unfolding variateForHalfIntegerShape_def near_half_state
  apply (subst exp_sum_loop_unfold, simp add: counting_sources_draws)
  apply (subst exp_sum_loop_unfold, simp add: counting_sources_draws)
  apply (subst exp_sum_loop_unfold, simp add: counting_sources_draws)
  done

lemma near_half_variate:
  "Gamma_variate (counting_sources 1 2 0 0) M (GammaRand M (24999999 / 10000000) 1 st0) g
   = Some (Finite 3, Suc (Suc (Suc g)))"
  by (subst Gamma_variate_half_integer_branch)
     (simp_all add: near_half_state near_half_tests near_half_integer_draw scaled_def finite_draw_def)

text \<open>
  Claim C1. The object \<^verbatim>\<open>GammaRand(2.4999999, 1)\<close> has a shape below \<open>5\<close> that passes the
  half-integer test of \<^verbatim>\<open>variate\<close> and of \<^verbatim>\<open>sample\<close>. With every exponential draw \<open>1\<close> and
  every normal draw \<open>2\<close>, \<^verbatim>\<open>variate()\<close> returns \<open>3\<close> after three draws: the sum of three
  exponential draws, from \<^verbatim>\<open>variateForIntegerShape\<close>, with no normal draw. The sum of two
  exponential draws plus half the square of a normal draw, which \<^verbatim>\<open>variateForHalfIntegerShape\<close>
  computes from the same generator state, is \<open>4\<close>.
\<close>

theorem Gamma_variate_near_half_integer:
  "Gamma_variate (counting_sources 1 2 0 0) M (GammaRand M (24999999 / 10000000) 1 st0) g
     = Some (Finite 3, Suc (Suc (Suc g)))
   \<and> variateForHalfIntegerShape (counting_sources 1 2 0 0) (GammaRand M (24999999 / 10000000) 1 st0) g
     = (4, Suc (Suc (Suc g)))"
  by (simp add: near_half_variate near_half_half_integer_draw)

lemma exact_half_tests:
  "c_round (5 / 2) = 3"
  "\<not> areClose (5 / 2) 3"
  "\<not> areClose 2 3"
  by (simp_all add: c_round_def areClose_def areClose_eps_def)

lemma Gamma_variate_exact_half_integer:
  "Gamma_variate S M (GammaRand M (5 / 2) 1 st0) g
   = scaled (GammaRand M (5 / 2) 1 st0) (variateForMediumShape S M (GammaRand M (5 / 2) 1 st0) g)"
proof -
  have a: "alpha (GammaRand M (5 / 2) 1 st0) = 5 / 2"
    by (simp add: GammaRand_def Gamma_setParameters_def Let_def exact_half_tests)
  show ?thesis
    unfolding Gamma_variate_def Let_def a by (simp add: exact_half_tests)
qed

text \<open>
  Claim C3. For the same object and draws, \<^verbatim>\<open>sample\<close> writes \<open>4\<close> into a buffer of one
  element, the draw of \<^verbatim>\<open>variateForHalfIntegerShape\<close>, where one call of \<^verbatim>\<open>variate()\<close> per
  element writes \<open>3\<close>. (In every other regime the two agree: \<open>Gamma_sample_other_regimes\<close>.)
\<close>

theorem Gamma_sample_near_half_integer:
  "Gamma_sample (counting_sources 1 2 0 0) M (GammaRand M (24999999 / 10000000) 1 st0) [x] g
     = Some ([Finite 4], Suc (Suc (Suc g)))
   \<and> fill_each (Gamma_variate (counting_sources 1 2 0 0) M (GammaRand M (24999999 / 10000000) 1 st0)) [x] g
     = Some ([Finite 3], Suc (Suc (Suc g)))"
proof
  show "Gamma_sample (counting_sources 1 2 0 0) M (GammaRand M (24999999 / 10000000) 1 st0) [x] g
        = Some ([Finite 4], Suc (Suc (Suc g)))"
    by (subst Gamma_sample_half_integer_branch)
       (simp_all add: near_half_state near_half_tests near_half_half_integer_draw scaled_def finite_draw_def)
  show "fill_each (Gamma_variate (counting_sources 1 2 0 0) M (GammaRand M (24999999 / 10000000) 1 st0)) [x] g
        = Some ([Finite 3], Suc (Suc (Suc g)))"
    by (simp add: near_half_variate)
qed

section \<open>Properties of BinomialRand\<close>

lemma setRejectionConstants_keeps:
  "bin_n (setRejectionConstants M st) = bin_n st"
  "bin_p (setRejectionConstants M st) = bin_p st"
  "bin_q (setRejectionConstants M st) = bin_q st"
  "np (setRejectionConstants M st) = np st"
  "minpq (setRejectionConstants M st) = minpq st"
  "npFloor (setRejectionConstants M st) = npFloor st"
  "pFloor (setRejectionConstants M st) = pFloor st"
  "pRes (setRejectionConstants M st) = pRes st"
  "G_prob (setRejectionConstants M st) = (if pRes st > 0 then pRes st / (1 - pFloor st) else G_prob st)"
  by (simp_all add: setRejectionConstants_def Let_def)

lemma getIdOfUsedGenerator_cong:
  "bin_n st = bin_n st' \<Longrightarrow> bin_p st = bin_p st' \<Longrightarrow> minpq st = minpq st' \<Longrightarrow>
   npFloor st = npFloor st' \<Longrightarrow> pRes st = pRes st' \<Longrightarrow>
   getIdOfUsedGenerator st = getIdOfUsedGenerator st'"
  by (simp add: getIdOfUsedGenerator_def)

lemma setGeneratorConstants_fields:
  "bin_n (setGeneratorConstants M st) = bin_n st"
  "bin_p (setGeneratorConstants M st) = bin_p st"
  "bin_q (setGeneratorConstants M st) = bin_q st"
  "np (setGeneratorConstants M st) = np st"
  "minpq (setGeneratorConstants M st) = min (bin_p st) (bin_q st)"
  "npFloor (setGeneratorConstants M st) = of_int \<lfloor>real_of_int (bin_n st) * min (bin_p st) (bin_q st)\<rfloor>"
  "pFloor (setGeneratorConstants M st)
     = of_int \<lfloor>real_of_int (bin_n st) * min (bin_p st) (bin_q st)\<rfloor> / real_of_int (bin_n st)"
  "pRes (setGeneratorConstants M st)
     = (if areClose (of_int \<lfloor>real_of_int (bin_n st) * min (bin_p st) (bin_q st)\<rfloor>)
                    (real_of_int (bin_n st) * min (bin_p st) (bin_q st)) then 0
        else min (bin_p st) (bin_q st)
             - of_int \<lfloor>real_of_int (bin_n st) * min (bin_p st) (bin_q st)\<rfloor> / real_of_int (bin_n st))"
  by (simp_all add: setGeneratorConstants_def Let_def setRejectionConstants_keeps)

lemma setGeneratorConstants_regime:
  "getIdOfUsedGenerator (setGeneratorConstants M st)
   = getIdOfUsedGenerator
       (st\<lparr> minpq := minpq (setGeneratorConstants M st),
             npFloor := npFloor (setGeneratorConstants M st),
             pFloor := pFloor (setGeneratorConstants M st),
             pRes := pRes (setGeneratorConstants M st) \<rparr>)"
  by (rule getIdOfUsedGenerator_cong) (simp_all add: setGeneratorConstants_fields)

lemma setGeneratorConstants_G_prob:
  "getIdOfUsedGenerator (setGeneratorConstants M st) = WAITING \<Longrightarrow>
   G_prob (setGeneratorConstants M st) = minpq (setGeneratorConstants M st)"
  "getIdOfUsedGenerator (setGeneratorConstants M st) = REJECTION \<Longrightarrow>
   pRes (setGeneratorConstants M st) > 0 \<Longrightarrow>
   G_prob (setGeneratorConstants M st)
     = pRes (setGeneratorConstants M st) / (1 - pFloor (setGeneratorConstants M st))"
  unfolding setGeneratorConstants_regime
  unfolding setGeneratorConstants_fields
  by (simp_all add: setGeneratorConstants_def Let_def setRejectionConstants_keeps)

lemma Binomial_setParameters_fields:
  "bin_n (Binomial_setParameters M number probability st) = max number 1"
  "bin_p (Binomial_setParameters M number probability st) = max (min probability 1) 0"
  "bin_q (Binomial_setParameters M number probability st)
     = 1 - bin_p (Binomial_setParameters M number probability st)"
  "minpq (Binomial_setParameters M number probability st)
     = min (bin_p (Binomial_setParameters M number probability st))
           (1 - bin_p (Binomial_setParameters M number probability st))"
  by (simp_all add: Binomial_setParameters_def Let_def setGeneratorConstants_fields)

lemma fitProbabilityMLE_fails_closed:
  "\<not> checkValidity st sample \<Longrightarrow> fitProbabilityMLE M st sample = (False, st)"
  "\<not> checkValidity st sample \<Longrightarrow> fitProbabilityMM M st sample = (False, st)"
  by (simp_all add: fitProbabilityMM_def fitProbabilityMLE_def)

lemma fitProbabilityBayes_never_fails:
  "fst (fitProbabilityBayes B M st sample priorDistribution) = True"
  by (simp add: fitProbabilityBayes_def Let_def)

lemma five_half_fields:
  "bin_n (BinomialRand M 5 (1 / 2) st0) = 5"
  "bin_p (BinomialRand M 5 (1 / 2) st0) = 1 / 2"
  by (simp_all add: BinomialRand_def Binomial_setParameters_fields)

lemma checkValidity_truncates:
  "checkValidity (BinomialRand M 5 (1 / 2) st0) [11 / 2]"
  "checkValidity (BinomialRand M 5 (1 / 2) st0) [- 1 / 2]"
  by (simp_all add: five_half_fields to_int_def)

text \<open>
  Claim C2. For the object \<^verbatim>\<open>BinomialRand(5, 0.5)\<close> and the sample \<open>[7]\<close>, whose value is
  above \<open>n = 5\<close>: \<^verbatim>\<open>checkValidity\<close> rejects the sample and \<^verbatim>\<open>fitProbabilityMLE\<close> returns
  \<^verbatim>\<open>false\<close> with the object unchanged, but \<^verbatim>\<open>fitProbabilityBayes\<close> with the prior
  \<open>Beta(1, 3)\<close> returns \<^verbatim>\<open>true\<close> and sets the probability to \<open>8/9\<close>, the mean of the
  posterior \<open>Beta(8, 1)\<close>; it was \<open>1/2\<close> before the call.
\<close>

theorem fitProbabilityBayes_unchecked:
  "\<not> checkValidity (BinomialRand M 5 (1 / 2) st0) [7]
   \<and> fitProbabilityMLE M (BinomialRand M 5 (1 / 2) st0) [7] = (False, BinomialRand M 5 (1 / 2) st0)
   \<and> fst (fitProbabilityBayes pair_beta M (BinomialRand M 5 (1 / 2) st0) [7] (1, 3)) = True
   \<and> bin_n (fst (snd (fitProbabilityBayes pair_beta M (BinomialRand M 5 (1 / 2) st0) [7] (1, 3)))) = 5
   \<and> bin_p (fst (snd (fitProbabilityBayes pair_beta M (BinomialRand M 5 (1 / 2) st0) [7] (1, 3)))) = 8 / 9
   \<and> bin_p (BinomialRand M 5 (1 / 2) st0) = 1 / 2"
proof -
  have bad: "\<not> checkValidity (BinomialRand M 5 (1 / 2) st0) [7]"
    by (simp add: five_half_fields to_int_def)
  have mle: "fitProbabilityMLE M (BinomialRand M 5 (1 / 2) st0) [7] = (False, BinomialRand M 5 (1 / 2) st0)"
    using bad by (rule fitProbabilityMLE_fails_closed)
  have r: "fitProbabilityBayes pair_beta M (BinomialRand M 5 (1 / 2) st0) [7] (1, 3)
           = (True, Binomial_setParameters M 5 (8 / 9) (BinomialRand M 5 (1 / 2) st0), (8, 1))"
    by (simp add: fitProbabilityBayes_def Let_def pair_beta_def sum_sample_def five_half_fields)
  show ?thesis
    unfolding r
    by (intro conjI) (rule bad, rule mle, simp_all add: five_half_fields Binomial_setParameters_fields)
qed

lemma areClose_one_nonzero: "areClose p 1 \<Longrightarrow> p \<noteq> 0"
  by (auto simp: areClose_def areClose_eps_def)

lemma bernoulli_loop_counting:
  "bernoulli_loop (\<lambda>g. (0, Suc g)) k var g = (var, k + g)"
  by (induction k arbitrary: var g) simp_all

lemma two_fields:
  "bin_n (BinomialRand M 2 pr st0) = 2"
  "bin_p (BinomialRand M 2 0 st0) = 0"
  "bin_p (BinomialRand M 2 1 st0) = 1"
  by (simp_all add: BinomialRand_def Binomial_setParameters_fields)

lemma small_n_regime: "bin_n st \<le> 3 \<Longrightarrow> getIdOfUsedGenerator st = BERNOULLI_SUM"
  by (simp add: getIdOfUsedGenerator_def)

lemma variateBernoulliSum_counting:
  "variateBernoulliSum (counting_sources e z u k) number pr g = (0, nat number + g)"
  by (simp add: variateBernoulliSum_def counting_sources_def bernoulli_loop_counting)

lemma regularizedBetaFun_whole:
  assumes k: "0 \<le> k" "k < n"
  shows "regularizedBetaFun x (real_of_int (n - k)) (real_of_int (1 + k))
         = (\<Sum>j = nat (n - k)..nat n. real (nat n choose j) * x ^ j * (1 - x) ^ (nat n - j))"
proof -
  have N: "nat (n - k) + nat (1 + k) - 1 = nat n"
    using k by linarith
  have fl: "nat \<lfloor>real_of_int (n - k)\<rfloor> = nat (n - k)" "nat \<lfloor>real_of_int (1 + k)\<rfloor> = nat (1 + k)"
    by simp_all
  show ?thesis
    unfolding regularizedBetaFun_def Let_def fl N by (rule refl)
qed

lemma binomial_terms_nonneg:
  "0 \<le> x \<Longrightarrow> x \<le> 1 \<Longrightarrow> 0 \<le> real (N choose j) * x ^ j * (1 - x) ^ (N - j)"
  by simp

lemma binomial_terms_total:
  "(\<Sum>j = 0..N. real (N choose j) * x ^ j * (1 - x) ^ (N - j)) = 1"
proof -
  have "(x + (1 - x)) ^ N = (\<Sum>j\<le>N. of_nat (N choose j) * x ^ j * (1 - x) ^ (N - j))"
    by (rule binomial_ring)
  then show ?thesis
    by (simp add: atMost_atLeast0)
qed

lemma binomial_tail_mono:
  assumes "0 \<le> x" "x \<le> 1" "a \<le> b"
  shows "(\<Sum>j = b..N. real (N choose j) * x ^ j * (1 - x) ^ (N - j))
         \<le> (\<Sum>j = a..N. real (N choose j) * x ^ j * (1 - x) ^ (N - j))"
  using assms by (intro sum_mono2) (auto intro: binomial_terms_nonneg)

lemma binomial_tail_le_one:
  assumes "0 \<le> x" "x \<le> 1"
  shows "(\<Sum>j = a..N. real (N choose j) * x ^ j * (1 - x) ^ (N - j)) \<le> 1"
proof -
  have "(\<Sum>j = a..N. real (N choose j) * x ^ j * (1 - x) ^ (N - j))
        \<le> (\<Sum>j = 0..N. real (N choose j) * x ^ j * (1 - x) ^ (N - j))"
    using assms by (intro binomial_tail_mono) simp_all
  then show ?thesis by (simp only: binomial_terms_total)
qed

lemma binomial_tail_nonneg:
  assumes "0 \<le> x" "x \<le> 1"
  shows "0 \<le> (\<Sum>j = a..N. real (N choose j) * x ^ j * (1 - x) ^ (N - j))"
  using assms by (intro sum_nonneg binomial_terms_nonneg)

lemma Binomial_F_inside:
  assumes k: "0 \<le> k" "k < bin_n st"
  shows "Binomial_F st k
         = (\<Sum>j = nat (bin_n st - k)..nat (bin_n st).
              real (nat (bin_n st) choose j) * bin_q st ^ j * (1 - bin_q st) ^ (nat (bin_n st) - j))"
proof -
  have "\<not> k < 0" "\<not> bin_n st \<le> k"
    using k by simp_all
  then show ?thesis
    unfolding Binomial_F_def by (simp only: if_False regularizedBetaFun_whole [OF k])
qed

lemma Binomial_F_range:
  assumes "0 \<le> bin_q st" "bin_q st \<le> 1"
  shows "0 \<le> Binomial_F st k \<and> Binomial_F st k \<le> 1"
proof (cases "0 \<le> k \<and> k < bin_n st")
  case True
  then show ?thesis
    using assms by (simp add: Binomial_F_inside binomial_tail_le_one binomial_tail_nonneg)
next
  case False
  then show ?thesis
    by (auto simp: Binomial_F_def)
qed

lemma Binomial_F_mono:
  assumes q: "0 \<le> bin_q st" "bin_q st \<le> 1" and n: "1 \<le> bin_n st" and kk: "k \<le> k'"
  shows "Binomial_F st k \<le> Binomial_F st k'"
proof -
  consider "k < 0" | "bin_n st \<le> k'" | "0 \<le> k" "k' < bin_n st"
    by linarith
  then show ?thesis
  proof cases
    case 1
    then have "Binomial_F st k = 0" by (simp add: Binomial_F_def)
    then show ?thesis using Binomial_F_range [OF q, of k'] by simp
  next
    case 2
    then have "Binomial_F st k' = 1" using n by (simp add: Binomial_F_def)
    then show ?thesis using Binomial_F_range [OF q, of k] by simp
  next
    case 3
    then have in1: "0 \<le> k" "k < bin_n st" and in2: "0 \<le> k'" "k' < bin_n st"
      using kk by simp_all
    have "nat (bin_n st - k') \<le> nat (bin_n st - k)"
      using kk by simp
    then show ?thesis
      unfolding Binomial_F_inside [OF in1] Binomial_F_inside [OF in2]
      using q by (intro binomial_tail_mono)
  qed
qed

lemma BinomialRand_invariant:
  "1 \<le> bin_n (BinomialRand M number probability st0)
   \<and> 0 \<le> bin_p (BinomialRand M number probability st0)
   \<and> bin_p (BinomialRand M number probability st0) \<le> 1
   \<and> bin_q (BinomialRand M number probability st0) = 1 - bin_p (BinomialRand M number probability st0)"
  by (simp add: BinomialRand_def Binomial_setParameters_fields)

text \<open>
  Claim C8. For a Binomial object with \<open>n \<ge> 1\<close>, \<open>p\<close> in \<open>[0, 1]\<close> and \<open>q = 1 - p\<close>, the
  cumulative function \<^verbatim>\<open>F\<close> is non-decreasing over the integers, takes its values in
  \<open>[0, 1]\<close>, is \<open>0\<close> at every \<open>k < 0\<close> and \<open>1\<close> at every \<open>k \<ge> n\<close>. (Every object that
  \<^verbatim>\<open>setParameters\<close> produces is such an object: \<open>BinomialRand_invariant\<close>.)
\<close>

theorem Binomial_F_cumulative:
  "1 \<le> bin_n st \<and> 0 \<le> bin_p st \<and> bin_p st \<le> 1 \<and> bin_q st = 1 - bin_p st \<longrightarrow>
     (\<forall>k k'. k \<le> k' \<longrightarrow> Binomial_F st k \<le> Binomial_F st k')
     \<and> (\<forall>k. 0 \<le> Binomial_F st k \<and> Binomial_F st k \<le> 1)
     \<and> (\<forall>k. k < 0 \<longrightarrow> Binomial_F st k = 0)
     \<and> (\<forall>k. bin_n st \<le> k \<longrightarrow> Binomial_F st k = 1)"
proof (intro impI conjI allI)
  assume a: "1 \<le> bin_n st \<and> 0 \<le> bin_p st \<and> bin_p st \<le> 1 \<and> bin_q st = 1 - bin_p st"
  then have q: "0 \<le> bin_q st" "bin_q st \<le> 1" by simp_all
  show "Binomial_F st k \<le> Binomial_F st k'" if "k \<le> k'" for k k'
    using q a that by (intro Binomial_F_mono) simp_all
  show "0 \<le> Binomial_F st k" "Binomial_F st k \<le> 1" for k
    using Binomial_F_range [OF q, of k] by simp_all
  show "Binomial_F st k = 0" if "k < 0" for k
    using that by (simp add: Binomial_F_def)
  show "Binomial_F st k = 1" if "bin_n st \<le> k" for k
    using that a by (simp add: Binomial_F_def)
qed

theorem Binomial_F_cumulative_witness:
  "Binomial_F (BinomialRand test_mathlib 3 (1 / 4) blank_binomial) (- 1) = 0
   \<and> Binomial_F (BinomialRand test_mathlib 3 (1 / 4) blank_binomial) 0
       \<le> Binomial_F (BinomialRand test_mathlib 3 (1 / 4) blank_binomial) 1
   \<and> Binomial_F (BinomialRand test_mathlib 3 (1 / 4) blank_binomial) 1 \<le> 1
   \<and> Binomial_F (BinomialRand test_mathlib 3 (1 / 4) blank_binomial) 1 = 27 / 32
   \<and> Binomial_F (BinomialRand test_mathlib 3 (1 / 4) blank_binomial) 3 = 1"
proof -
  note inv = BinomialRand_invariant [of test_mathlib 3 "1 / 4" blank_binomial]
  note t = Binomial_F_cumulative [THEN mp, OF inv]
  have n: "bin_n (BinomialRand test_mathlib 3 (1 / 4) blank_binomial) = 3"
    and q: "bin_q (BinomialRand test_mathlib 3 (1 / 4) blank_binomial) = 3 / 4"
    by (simp_all add: BinomialRand_def Binomial_setParameters_fields)
  have v: "Binomial_F (BinomialRand test_mathlib 3 (1 / 4) blank_binomial) 1 = 27 / 32"
    by (simp add: Binomial_F_def n q regularizedBetaFun_def Let_def numeral_eq_Suc
        sum.atLeast_Suc_atMost binomial_eq_0)
  have e1: "Binomial_F (BinomialRand test_mathlib 3 (1 / 4) blank_binomial) (- 1) = 0"
    using t [THEN conjunct2, THEN conjunct2, THEN conjunct1, THEN spec, of "- 1"] by simp
  have e2: "Binomial_F (BinomialRand test_mathlib 3 (1 / 4) blank_binomial) 0
            \<le> Binomial_F (BinomialRand test_mathlib 3 (1 / 4) blank_binomial) 1"
    using t [THEN conjunct1, THEN spec, THEN spec, of 0 1] by simp
  have e3: "Binomial_F (BinomialRand test_mathlib 3 (1 / 4) blank_binomial) 1 \<le> 1"
    using t [THEN conjunct2, THEN conjunct1, THEN spec, of 1] by simp
  have e4: "Binomial_F (BinomialRand test_mathlib 3 (1 / 4) blank_binomial) 3 = 1"
    using t [THEN conjunct2, THEN conjunct2, THEN conjunct2, THEN spec, of 3] n by simp
  show ?thesis
    by (intro conjI) (fact e1, fact e2, fact e3, fact v, fact e4)
qed

lemma Binomial_setParameters_floor_fields:
  "npFloor (Binomial_setParameters M number probability st)
     = of_int \<lfloor>real_of_int (bin_n (Binomial_setParameters M number probability st))
                * minpq (Binomial_setParameters M number probability st)\<rfloor>"
  "pFloor (Binomial_setParameters M number probability st)
     = npFloor (Binomial_setParameters M number probability st)
       / real_of_int (bin_n (Binomial_setParameters M number probability st))"
  "pRes (Binomial_setParameters M number probability st)
     = (if areClose (npFloor (Binomial_setParameters M number probability st))
                    (real_of_int (bin_n (Binomial_setParameters M number probability st))
                     * minpq (Binomial_setParameters M number probability st)) then 0
        else minpq (Binomial_setParameters M number probability st)
             - pFloor (Binomial_setParameters M number probability st))"
  by (simp_all add: Binomial_setParameters_def Let_def setGeneratorConstants_fields)

lemma Binomial_setParameters_G_prob:
  "getIdOfUsedGenerator (Binomial_setParameters M number probability st) = WAITING \<Longrightarrow>
   G_prob (Binomial_setParameters M number probability st)
     = minpq (Binomial_setParameters M number probability st)"
  "getIdOfUsedGenerator (Binomial_setParameters M number probability st) = REJECTION \<Longrightarrow>
   pRes (Binomial_setParameters M number probability st) > 0 \<Longrightarrow>
   G_prob (Binomial_setParameters M number probability st)
     = pRes (Binomial_setParameters M number probability st)
       / (1 - pFloor (Binomial_setParameters M number probability st))"
  unfolding Binomial_setParameters_def Let_def
  by (rule setGeneratorConstants_G_prob; assumption)+

lemma Binomial_variate_waiting:
  "getIdOfUsedGenerator st = WAITING \<Longrightarrow>
   Binomial_variate S M st g
     = (let (X, g') = variateWaiting S st (bin_n st) g
        in (if bin_p st > 1 / 2 then bin_n st - X else X, g'))"
  by (auto simp: Binomial_variate_def Let_def split: prod.splits)

lemma Binomial_variate_rejection:
  "getIdOfUsedGenerator st = REJECTION \<Longrightarrow>
   Binomial_variate S M st g
     = (let (X, g1) = variateRejection S M st g;
            (X', g2) = (if pRes st > 0
                        then (let (W, g2) = variateWaiting S st (bin_n st - X) g1 in (X + W, g2))
                        else (X, g1))
        in (if bin_p st > 1 / 2 then bin_n st - X' else X', g2))"
  by (simp add: Binomial_variate_def)

text \<open>
  Claim C6. For a Binomial object as \<^verbatim>\<open>setParameters\<close> leaves it, \<^verbatim>\<open>minpq\<close> is the minority
  probability \<open>min(p, 1 - p)\<close>. In the waiting regime the geometric member has probability
  \<^verbatim>\<open>minpq\<close> and \<^verbatim>\<open>variate()\<close> returns the waiting-time draw \<open>X\<close> when \<open>p \<le> 0.5\<close> and
  \<open>n - X\<close> when \<open>p > 0.5\<close>. In the rejection regime the constants come from
  \<open>\<lfloor>n minpq\<rfloor> / n\<close>; with a positive residue the geometric member has probability
  \<open>pRes / (1 - pFloor)\<close> and a waiting-time draw for \<open>n - X\<close> is added to the rejection draw
  \<open>X\<close>; the sum is returned when \<open>p \<le> 0.5\<close> and reflected to \<open>n -\<close> the sum when \<open>p > 0.5\<close>.
\<close>

theorem Binomial_variate_reflection:
  "minpq (Binomial_setParameters M number probability st0)
     = min (bin_p (Binomial_setParameters M number probability st0))
           (1 - bin_p (Binomial_setParameters M number probability st0))
   \<and> (getIdOfUsedGenerator (Binomial_setParameters M number probability st0) = WAITING \<longrightarrow>
        G_prob (Binomial_setParameters M number probability st0)
          = minpq (Binomial_setParameters M number probability st0)
        \<and> Binomial_variate S M (Binomial_setParameters M number probability st0) g
          = (let st = Binomial_setParameters M number probability st0;
                 (X, g') = variateWaiting S st (bin_n st) g
             in (if bin_p st > 1 / 2 then bin_n st - X else X, g')))
   \<and> (getIdOfUsedGenerator (Binomial_setParameters M number probability st0) = REJECTION \<longrightarrow>
        npFloor (Binomial_setParameters M number probability st0)
          = of_int \<lfloor>real_of_int (bin_n (Binomial_setParameters M number probability st0))
                     * minpq (Binomial_setParameters M number probability st0)\<rfloor>
        \<and> pFloor (Binomial_setParameters M number probability st0)
          = npFloor (Binomial_setParameters M number probability st0)
            / real_of_int (bin_n (Binomial_setParameters M number probability st0))
        \<and> (pRes (Binomial_setParameters M number probability st0) > 0 \<longrightarrow>
             G_prob (Binomial_setParameters M number probability st0)
               = pRes (Binomial_setParameters M number probability st0)
                 / (1 - pFloor (Binomial_setParameters M number probability st0)))
        \<and> Binomial_variate S M (Binomial_setParameters M number probability st0) g
          = (let st = Binomial_setParameters M number probability st0;
                 (X, g1) = variateRejection S M st g;
                 (X', g2) = (if pRes st > 0
                             then (let (W, g2) = variateWaiting S st (bin_n st - X) g1 in (X + W, g2))
                             else (X, g1))
             in (if bin_p st > 1 / 2 then bin_n st - X' else X', g2)))"
proof (intro conjI impI)
  show "minpq (Binomial_setParameters M number probability st0)
        = min (bin_p (Binomial_setParameters M number probability st0))
              (1 - bin_p (Binomial_setParameters M number probability st0))"
    by (rule Binomial_setParameters_fields)
next
  assume w: "getIdOfUsedGenerator (Binomial_setParameters M number probability st0) = WAITING"
  show "G_prob (Binomial_setParameters M number probability st0)
        = minpq (Binomial_setParameters M number probability st0)"
    using w by (rule Binomial_setParameters_G_prob)
  show "Binomial_variate S M (Binomial_setParameters M number probability st0) g
          = (let st = Binomial_setParameters M number probability st0;
                 (X, g') = variateWaiting S st (bin_n st) g
             in (if bin_p st > 1 / 2 then bin_n st - X else X, g'))"
    using Binomial_variate_waiting [OF w] by (simp add: Let_def)
next
  assume r: "getIdOfUsedGenerator (Binomial_setParameters M number probability st0) = REJECTION"
  show "npFloor (Binomial_setParameters M number probability st0)
          = of_int \<lfloor>real_of_int (bin_n (Binomial_setParameters M number probability st0))
                     * minpq (Binomial_setParameters M number probability st0)\<rfloor>"
    by (rule Binomial_setParameters_floor_fields)
  show "pFloor (Binomial_setParameters M number probability st0)
          = npFloor (Binomial_setParameters M number probability st0)
            / real_of_int (bin_n (Binomial_setParameters M number probability st0))"
    by (rule Binomial_setParameters_floor_fields)
  show "G_prob (Binomial_setParameters M number probability st0)
               = pRes (Binomial_setParameters M number probability st0)
                 / (1 - pFloor (Binomial_setParameters M number probability st0))"
    if "pRes (Binomial_setParameters M number probability st0) > 0"
    using r that by (rule Binomial_setParameters_G_prob)
  show "Binomial_variate S M (Binomial_setParameters M number probability st0) g
          = (let st = Binomial_setParameters M number probability st0;
                 (X, g1) = variateRejection S M st g;
                 (X', g2) = (if pRes st > 0
                             then (let (W, g2) = variateWaiting S st (bin_n st - X) g1 in (X + W, g2))
                             else (X, g1))
             in (if bin_p st > 1 / 2 then bin_n st - X' else X', g2))"
    using Binomial_variate_rejection [OF r] by (simp add: Let_def)
qed

lemma variateWaiting_loop_unfold:
  "variateWaiting_loop S st number X sum0 g =
     (if sum0 + (int (fst (geometric S (G_prob st) g)) + 1) \<le> number
      then variateWaiting_loop S st number (X + 1)
             (sum0 + (int (fst (geometric S (G_prob st) g)) + 1)) (snd (geometric S (G_prob st) g))
      else (X + 1, snd (geometric S (G_prob st) g)))"
  by (subst variateWaiting_loop.simps) (simp add: split_def Let_def)

lemma variateRejection_first_region:
  assumes "0 \<le> a1 st" "0 < delta1 st" "bin_c st \<le> e"
    and "0 \<le> npFloor st" "npFloor st \<le> real_of_int (bin_n st)"
    and "logPnpInv st = logProbFloor M st (to_int (npFloor st))"
  shows "variateRejection (counting_sources e 0 0 k) M st g
         = (to_int (npFloor st), Suc (Suc (Suc g)))"
proof -
  have proposal: "rejection_proposal (counting_sources e 0 0 k) st g
              = (Some (0, - e + bin_c st), Suc (Suc (Suc g)))"
    using assms(1,2) by (simp add: rejection_proposal_def counting_sources_draws)
  show ?thesis
    unfolding variateRejection_def
    by (subst variateRejection_loop.simps) (use assms in \<open>simp add: proposal\<close>)
qed

lemma setGeneratorConstants_rejection:
  assumes "getIdOfUsedGenerator (setGeneratorConstants M st) = REJECTION"
  shows "setGeneratorConstants M st
         = setRejectionConstants M
             (st\<lparr> minpq := minpq (setGeneratorConstants M st),
                   npFloor := npFloor (setGeneratorConstants M st),
                   pFloor := pFloor (setGeneratorConstants M st),
                   pRes := pRes (setGeneratorConstants M st) \<rparr>)"
  using assms
  unfolding setGeneratorConstants_regime
  unfolding setGeneratorConstants_fields
  by (simp add: setGeneratorConstants_def Let_def split: if_splits)

lemma setRejectionConstants_delta1:
  "delta1 (setRejectionConstants M st)
   = (if 1 < npFloor st * (1 - pFloor st)
              * c_log M (128 * real_of_int (bin_n st) / pi * pFloor st / (81 * (1 - pFloor st)))
      then c_sqrt M (npFloor st * (1 - pFloor st)
              * c_log M (128 * real_of_int (bin_n st) / pi * pFloor st / (81 * (1 - pFloor st))))
      else 1)"
  by (simp add: setRejectionConstants_def Let_def)

lemma setRejectionConstants_derived:
  "bin_c (setRejectionConstants M st) = 2 * delta1 (setRejectionConstants M st) / npFloor st"
  "sigma1 (setRejectionConstants M st)
     = c_sqrt M (npFloor st * (1 - pFloor st))
       * (1 + (1 / 4) * delta1 (setRejectionConstants M st) / npFloor st)"
  "a1 (setRejectionConstants M st)
     = (1 / 2) * c_exp M (bin_c (setRejectionConstants M st))
       * sigma1 (setRejectionConstants M st) * M_SQRT2PI"
  "logPnpInv (setRejectionConstants M st)
     = logProbFloor M (setRejectionConstants M st) (to_int (npFloor st))"
  by (simp_all add: setRejectionConstants_def Let_def logProbFloor_def)

lemma test_mathlib_fields:
  "c_log test_mathlib = ln" "c_sqrt test_mathlib = sqrt" "c_exp test_mathlib = exp"
  by (simp_all add: test_mathlib_def)

lemma delta1_bounds:
  assumes "npFloor st * (1 - pFloor st)
             * ln (128 * real_of_int (bin_n st) / pi * pFloor st / (81 * (1 - pFloor st))) \<le> B\<^sup>2"
    and "1 \<le> B"
  shows "0 < delta1 (setRejectionConstants test_mathlib st)"
    and "delta1 (setRejectionConstants test_mathlib st) \<le> B"
proof -
  let ?d = "npFloor st * (1 - pFloor st)
             * ln (128 * real_of_int (bin_n st) / pi * pFloor st / (81 * (1 - pFloor st)))"
  have eq: "delta1 (setRejectionConstants test_mathlib st) = (if 1 < ?d then sqrt ?d else 1)"
    unfolding setRejectionConstants_delta1 test_mathlib_fields ..
  show "0 < delta1 (setRejectionConstants test_mathlib st)"
    unfolding eq by simp
  have "sqrt ?d \<le> B"
    using assms by (intro real_le_lsqrt) simp_all
  then show "delta1 (setRejectionConstants test_mathlib st) \<le> B"
    unfolding eq using assms(2) by simp
qed

lemma a1_nonneg:
  assumes "0 \<le> npFloor st" "pFloor st \<le> 1" "0 < delta1 (setRejectionConstants test_mathlib st)"
  shows "0 \<le> a1 (setRejectionConstants test_mathlib st)"
proof -
  have "0 \<le> (1 / 4) * delta1 (setRejectionConstants test_mathlib st) / npFloor st"
    using assms by simp
  then have "0 \<le> 1 + (1 / 4) * delta1 (setRejectionConstants test_mathlib st) / npFloor st"
    by linarith
  moreover have "0 \<le> sqrt (npFloor st * (1 - pFloor st))"
    using assms by simp
  ultimately have "0 \<le> sigma1 (setRejectionConstants test_mathlib st)"
    unfolding setRejectionConstants_derived test_mathlib_fields by (rule mult_nonneg_nonneg [rotated])
  then show ?thesis
    unfolding setRejectionConstants_derived(3) test_mathlib_fields M_SQRT2PI_def by simp
qed

lemma ln_rejection_constant:
  "ln (128 * 100 / pi * (29 / 100) / (81 * (1 - 29 / 100))) \<le> 32"
proof -
  have K: "128 * 100 / pi * (29 / 100) / (81 * (1 - 29 / 100)) = (371200 / 5751) / pi"
    by (simp add: field_simps)
  have "0 < (371200 / 5751) / pi"
    by simp
  then have "ln ((371200 / 5751) / pi) \<le> (371200 / 5751) / pi - 1"
    by (rule ln_le_minus_one)
  moreover have "(371200 / 5751) / pi \<le> (371200 / 5751) / 2"
    using pi_ge_two by (intro divide_left_mono) simp_all
  ultimately show ?thesis
    unfolding K by simp
qed

lemma waiting_instance_fields:
  "bin_n (Binomial_setParameters M 20 (9 / 10) st0) = 20"
  "bin_p (Binomial_setParameters M 20 (9 / 10) st0) = 9 / 10"
  "minpq (Binomial_setParameters M 20 (9 / 10) st0) = 1 / 10"
  "npFloor (Binomial_setParameters M 20 (9 / 10) st0) = 2"
  "pRes (Binomial_setParameters M 20 (9 / 10) st0) = 0"
proof -
  show n: "bin_n (Binomial_setParameters M 20 (9 / 10) st0) = 20"
    and p: "bin_p (Binomial_setParameters M 20 (9 / 10) st0) = 9 / 10"
    by (simp_all add: Binomial_setParameters_fields)
  show m: "minpq (Binomial_setParameters M 20 (9 / 10) st0) = 1 / 10"
    unfolding Binomial_setParameters_fields(4) p by simp
  show f: "npFloor (Binomial_setParameters M 20 (9 / 10) st0) = 2"
    unfolding Binomial_setParameters_floor_fields(1) n m by simp
  show "pRes (Binomial_setParameters M 20 (9 / 10) st0) = 0"
    unfolding Binomial_setParameters_floor_fields(3) f n m
    by (simp add: areClose_def areClose_eps_def)
qed

lemma waiting_instance_regime:
  "getIdOfUsedGenerator (Binomial_setParameters M 20 (9 / 10) st0) = WAITING"
  by (simp add: getIdOfUsedGenerator_def waiting_instance_fields areClose_def areClose_eps_def)

lemma rejection_instance_fields:
  "bin_n (Binomial_setParameters M 100 (141 / 200) st0) = 100"
  "bin_p (Binomial_setParameters M 100 (141 / 200) st0) = 141 / 200"
  "minpq (Binomial_setParameters M 100 (141 / 200) st0) = 59 / 200"
  "npFloor (Binomial_setParameters M 100 (141 / 200) st0) = 29"
  "pFloor (Binomial_setParameters M 100 (141 / 200) st0) = 29 / 100"
  "pRes (Binomial_setParameters M 100 (141 / 200) st0) = 1 / 200"
proof -
  show n: "bin_n (Binomial_setParameters M 100 (141 / 200) st0) = 100"
    and p: "bin_p (Binomial_setParameters M 100 (141 / 200) st0) = 141 / 200"
    by (simp_all add: Binomial_setParameters_fields)
  show m: "minpq (Binomial_setParameters M 100 (141 / 200) st0) = 59 / 200"
    unfolding Binomial_setParameters_fields(4) p by simp
  show f: "npFloor (Binomial_setParameters M 100 (141 / 200) st0) = 29"
    unfolding Binomial_setParameters_floor_fields(1) n m by simp
  show pf: "pFloor (Binomial_setParameters M 100 (141 / 200) st0) = 29 / 100"
    unfolding Binomial_setParameters_floor_fields(2) f n by simp
  show "pRes (Binomial_setParameters M 100 (141 / 200) st0) = 1 / 200"
    unfolding Binomial_setParameters_floor_fields(3) f n m pf
    by (simp add: areClose_def areClose_eps_def)
qed

lemma rejection_instance_regime:
  "getIdOfUsedGenerator (Binomial_setParameters M 100 (141 / 200) st0) = REJECTION"
  by (simp add: getIdOfUsedGenerator_def rejection_instance_fields areClose_def areClose_eps_def)

lemma rejection_instance_constants:
  "0 \<le> a1 (Binomial_setParameters test_mathlib 100 (141 / 200) st0)"
  "0 < delta1 (Binomial_setParameters test_mathlib 100 (141 / 200) st0)"
  "bin_c (Binomial_setParameters test_mathlib 100 (141 / 200) st0) \<le> 2"
  "logPnpInv (Binomial_setParameters test_mathlib 100 (141 / 200) st0)
     = logProbFloor test_mathlib (Binomial_setParameters test_mathlib 100 (141 / 200) st0) 29"
proof -
  define R where "R = Binomial_setParameters test_mathlib 100 (141 / 200) st0"
  note f = rejection_instance_fields [of test_mathlib st0, folded R_def]
  have "getIdOfUsedGenerator R = REJECTION"
    unfolding R_def by (rule rejection_instance_regime)
  then have "\<exists>R0. R = setRejectionConstants test_mathlib R0"
    unfolding R_def Binomial_setParameters_def Let_def
    using setGeneratorConstants_rejection by blast
  then obtain R0 where R0: "R = setRejectionConstants test_mathlib R0" ..
  have g: "bin_n R0 = 100" "npFloor R0 = 29" "pFloor R0 = 29 / 100"
    using f unfolding R0 setRejectionConstants_keeps by simp_all
  have d: "npFloor R0 * (1 - pFloor R0)
             * ln (128 * real_of_int (bin_n R0) / pi * pFloor R0 / (81 * (1 - pFloor R0))) \<le> 29\<^sup>2"
    unfolding g using ln_rejection_constant by simp
  have pos: "0 < delta1 R" and le: "delta1 R \<le> 29"
    unfolding R0 using delta1_bounds [OF d] by simp_all
  show "0 \<le> a1 R"
    unfolding R0 by (rule a1_nonneg) (use pos in \<open>simp_all add: g R0\<close>)
  show "0 < delta1 R"
    by (rule pos)
  show "bin_c R \<le> 2"
    using le unfolding R0 setRejectionConstants_derived(1) g by simp
  show "logPnpInv R = logProbFloor test_mathlib R 29"
    unfolding R0 setRejectionConstants_derived(4) g by (simp add: to_int_def)
qed

lemma waiting_instance_draw:
  "variateWaiting (counting_sources 2 0 0 9) st 20 g = (2, Suc (Suc (Suc g)))"
  unfolding variateWaiting_def
  apply (subst variateWaiting_loop_unfold, simp add: counting_sources_draws)
  apply (subst variateWaiting_loop_unfold, simp add: counting_sources_draws)
  apply (subst variateWaiting_loop_unfold, simp add: counting_sources_draws)
  done

lemma residual_instance_draw:
  "variateWaiting (counting_sources 2 0 0 35) st 71 g = (1, Suc (Suc g))"
  unfolding variateWaiting_def
  apply (subst variateWaiting_loop_unfold, simp add: counting_sources_draws)
  apply (subst variateWaiting_loop_unfold, simp add: counting_sources_draws)
  done

lemma rejection_instance_draw:
  "variateRejection (counting_sources 2 0 0 35) test_mathlib
     (Binomial_setParameters test_mathlib 100 (141 / 200) st0) g
   = (29, Suc (Suc (Suc g)))"
proof -
  have "variateRejection (counting_sources 2 0 0 35) test_mathlib
          (Binomial_setParameters test_mathlib 100 (141 / 200) st0) g
        = (to_int (npFloor (Binomial_setParameters test_mathlib 100 (141 / 200) st0)), Suc (Suc (Suc g)))"
    by (rule variateRejection_first_region)
       (simp_all add: rejection_instance_constants rejection_instance_fields to_int_def)
  then show ?thesis
    by (simp add: rejection_instance_fields to_int_def)
qed

theorem Binomial_variate_reflection_witness:
  "G_prob (Binomial_setParameters test_mathlib 20 (9 / 10) blank_binomial) = 1 / 10
   \<and> Binomial_variate (counting_sources 2 0 0 9) test_mathlib
        (Binomial_setParameters test_mathlib 20 (9 / 10) blank_binomial) 0 = (18, 3)
   \<and> G_prob (Binomial_setParameters test_mathlib 100 (141 / 200) blank_binomial) = 1 / 142
   \<and> Binomial_variate (counting_sources 2 0 0 35) test_mathlib
        (Binomial_setParameters test_mathlib 100 (141 / 200) blank_binomial) 0 = (70, 5)"
proof -
  note w = Binomial_variate_reflection [of test_mathlib 20 "9 / 10" blank_binomial
      "counting_sources 2 0 0 9" 0, THEN conjunct2, THEN conjunct1, THEN mp,
      OF waiting_instance_regime]
  note r = Binomial_variate_reflection [of test_mathlib 100 "141 / 200" blank_binomial
      "counting_sources 2 0 0 35" 0, THEN conjunct2, THEN conjunct2, THEN mp,
      OF rejection_instance_regime]
  have w1: "G_prob (Binomial_setParameters test_mathlib 20 (9 / 10) blank_binomial) = 1 / 10"
    using w [THEN conjunct1] by (simp add: waiting_instance_fields)
  have w2: "Binomial_variate (counting_sources 2 0 0 9) test_mathlib
              (Binomial_setParameters test_mathlib 20 (9 / 10) blank_binomial) 0 = (18, 3)"
    unfolding w [THEN conjunct2]
    by (simp add: Let_def waiting_instance_fields waiting_instance_draw numeral_3_eq_3)
  have res: "0 < pRes (Binomial_setParameters test_mathlib 100 (141 / 200) blank_binomial)"
    by (simp add: rejection_instance_fields)
  have r1: "G_prob (Binomial_setParameters test_mathlib 100 (141 / 200) blank_binomial) = 1 / 142"
    using r [THEN conjunct2, THEN conjunct2, THEN conjunct1, THEN mp, OF res]
    by (simp add: rejection_instance_fields)
  have r2: "Binomial_variate (counting_sources 2 0 0 35) test_mathlib
              (Binomial_setParameters test_mathlib 100 (141 / 200) blank_binomial) 0 = (70, 5)"
  proof -
    have five: "Suc (Suc (Suc (Suc (Suc 0)))) = 5"
      by simp
    show ?thesis
      unfolding r [THEN conjunct2, THEN conjunct2, THEN conjunct2]
      by (simp add: Let_def rejection_instance_fields rejection_instance_draw
          residual_instance_draw five)
  qed
  show ?thesis
    by (intro conjI) (fact w1, fact w2, fact r1, fact r2)
qed

lemma variateWaiting_loop_counting:
  "g < snd (variateWaiting_loop (counting_sources e z u k) st number X sum0 g)"
proof (induction "nat (number + 1 - sum0)" arbitrary: X sum0 g rule: less_induct)
  case less
  show ?case
  proof (cases "sum0 + (int k + 1) \<le> number")
    case True
    then have "nat (number + 1 - (sum0 + (int k + 1))) < nat (number + 1 - sum0)"
      by simp
    then have "Suc g < snd (variateWaiting_loop (counting_sources e z u k) st number (X + 1)
                              (sum0 + (int k + 1)) (Suc g))"
      by (rule less.hyps)
    then show ?thesis
      using True by (subst variateWaiting_loop_unfold) (simp add: counting_sources_draws)
  next
    case False
    then show ?thesis
      by (subst variateWaiting_loop_unfold) (simp add: counting_sources_draws)
  qed
qed

lemma variateWaiting_counting:
  "g < snd (variateWaiting (counting_sources e z u k) st number g)"
  unfolding variateWaiting_def by (rule variateWaiting_loop_counting)

lemma rejection_proposal_counting:
  "g < snd (rejection_proposal (counting_sources e z u k) st g)"
  by (simp add: rejection_proposal_def counting_sources_draws Let_def)

lemma variateRejection_loop_step:
  "snd (variateRejection_loop S M st iter g) = snd (rejection_proposal S st g)
   \<or> snd (variateRejection_loop S M st iter g)
       = snd (variateRejection_loop S M st (iter + 1) (snd (rejection_proposal S st g)))
     \<and> iter + 1 < 10 ^ 9"
  using variateRejection_loop.simps [of S M st iter g]
  by (auto simp: Let_def split: prod.splits option.splits if_splits)

lemma variateRejection_loop_counting:
  "g < snd (variateRejection_loop (counting_sources e z u k) M st iter g)"
proof (induction "10 ^ 9 - iter" arbitrary: iter g rule: less_induct)
  case less
  note first = rejection_proposal_counting [of g e z u k st]
  from variateRejection_loop_step [of "counting_sources e z u k" M st iter g]
  show ?case
  proof
    assume "snd (variateRejection_loop (counting_sources e z u k) M st iter g)
            = snd (rejection_proposal (counting_sources e z u k) st g)"
    then show ?thesis using first by simp
  next
    assume a: "snd (variateRejection_loop (counting_sources e z u k) M st iter g)
            = snd (variateRejection_loop (counting_sources e z u k) M st (iter + 1)
                     (snd (rejection_proposal (counting_sources e z u k) st g)))
          \<and> iter + 1 < 10 ^ 9"
    then have "(10 :: nat) ^ 9 - (iter + 1) < 10 ^ 9 - iter"
      by arith
    then have "snd (rejection_proposal (counting_sources e z u k) st g)
               < snd (variateRejection_loop (counting_sources e z u k) M st (iter + 1)
                        (snd (rejection_proposal (counting_sources e z u k) st g)))"
      by (rule less.hyps)
    then show ?thesis using a first by simp
  qed
qed

lemma variateRejection_counting:
  "g < snd (variateRejection (counting_sources e z u k) M st g)"
  unfolding variateRejection_def by (rule variateRejection_loop_counting)

lemma Binomial_variate_counting:
  assumes "1 \<le> bin_n st"
  shows "g < snd (Binomial_variate (counting_sources e z u k) M st g)"
proof (cases "getIdOfUsedGenerator st")
  case BERNOULLI_SUM
  then show ?thesis
    using assms by (simp add: Binomial_variate_def variateBernoulliSum_counting)
next
  case WAITING
  then show ?thesis
    using variateWaiting_counting [of g e z u k st "bin_n st"]
    by (simp add: Binomial_variate_def split_def Let_def)
next
  case REJECTION
  obtain Y g1 where r: "variateRejection (counting_sources e z u k) M st g = (Y, g1)"
    by (cases "variateRejection (counting_sources e z u k) M st g")
  have g1: "g < g1"
    using variateRejection_counting [of g e z u k M st] by (simp add: r)
  have "g1 < snd (variateWaiting (counting_sources e z u k) st (bin_n st - Y) g1)"
    by (rule variateWaiting_counting)
  then show ?thesis
    using REJECTION g1 by (simp add: Binomial_variate_def r split_def Let_def)
qed

lemma Binomial_variate_two_draws:
  "Binomial_variate (counting_sources e z u k) M (BinomialRand M 2 0 st0) g = (0, Suc (Suc g))"
  "Binomial_variate (counting_sources e z u k) M (BinomialRand M 2 1 st0) g = (0, Suc (Suc g))"
proof -
  have "getIdOfUsedGenerator (BinomialRand M 2 0 st0) = BERNOULLI_SUM"
    by (rule small_n_regime) (simp add: two_fields)
  then show "Binomial_variate (counting_sources e z u k) M (BinomialRand M 2 0 st0) g = (0, Suc (Suc g))"
    by (simp add: Binomial_variate_def two_fields variateBernoulliSum_counting)
  have "getIdOfUsedGenerator (BinomialRand M 2 1 st0) = BERNOULLI_SUM"
    by (rule small_n_regime) (simp add: two_fields)
  then show "Binomial_variate (counting_sources e z u k) M (BinomialRand M 2 1 st0) g = (0, Suc (Suc g))"
    by (simp add: Binomial_variate_def two_fields variateBernoulliSum_counting)
qed

text \<open>
  Claim C10. \<^verbatim>\<open>BinomialRand::sample\<close> with \<open>p = 0\<close> writes \<open>0\<close> into every slot, and with
  \<open>p\<close> close to \<open>1\<close> writes \<open>n\<close> into every slot; in both cases the generator state is the
  one it was given, so no draw is made. \<^verbatim>\<open>variate()\<close> has no such shortcut: for every object
  with \<open>n \<ge> 1\<close>, and so for every object \<^verbatim>\<open>BinomialRand(number, probability)\<close> whatever its
  probability, a call of \<^verbatim>\<open>variate()\<close> makes at least one draw: with a source whose state
  counts the draws, the state it returns is above the one it was given.
\<close>

theorem Binomial_sample_short_circuit:
  "(bin_p st = 0 \<longrightarrow> Binomial_sample S M st outputData g = (replicate (length outputData) 0, g))
   \<and> (areClose (bin_p st) 1 \<longrightarrow>
        Binomial_sample S M st outputData g = (replicate (length outputData) (bin_n st), g))
   \<and> (1 \<le> bin_n st \<longrightarrow> g' < snd (Binomial_variate (counting_sources e z u k) M st g'))
   \<and> g' < snd (Binomial_variate (counting_sources e z u k) M
                 (BinomialRand M number probability st0) g')"
proof (intro conjI impI)
  assume "bin_p st = 0"
  then show "Binomial_sample S M st outputData g = (replicate (length outputData) 0, g)"
    by (simp add: Binomial_sample_def)
next
  assume c: "areClose (bin_p st) 1"
  then have "bin_p st \<noteq> 0" by (rule areClose_one_nonzero)
  with c show "Binomial_sample S M st outputData g = (replicate (length outputData) (bin_n st), g)"
    by (simp add: Binomial_sample_def)
next
  assume "1 \<le> bin_n st"
  then show "g' < snd (Binomial_variate (counting_sources e z u k) M st g')"
    by (rule Binomial_variate_counting)
next
  have "1 \<le> bin_n (BinomialRand M number probability st0)"
    using BinomialRand_invariant [of M number probability st0] by simp
  then show "g' < snd (Binomial_variate (counting_sources e z u k) M
                        (BinomialRand M number probability st0) g')"
    by (rule Binomial_variate_counting)
qed

theorem Binomial_sample_short_circuit_witness:
  "Binomial_sample (counting_sources 1 0 0 9) test_mathlib
       (BinomialRand test_mathlib 20 0 blank_binomial) [7, 7, 7] 0 = ([0, 0, 0], 0)
   \<and> Binomial_sample (counting_sources 1 0 0 9) test_mathlib
       (BinomialRand test_mathlib 20 (9999999 / 10000000) blank_binomial) [7, 7, 7] 0 = ([20, 20, 20], 0)
   \<and> 0 < snd (Binomial_variate (counting_sources 1 0 0 9) test_mathlib
                (BinomialRand test_mathlib 20 0 blank_binomial) 0)
   \<and> 0 < snd (Binomial_variate (counting_sources 1 0 0 9) test_mathlib
                (BinomialRand test_mathlib 20 (9999999 / 10000000) blank_binomial) 0)"
proof -
  have p0: "bin_p (BinomialRand test_mathlib 20 0 blank_binomial) = 0"
    by (simp add: BinomialRand_def Binomial_setParameters_fields)
  have p1: "bin_p (BinomialRand test_mathlib 20 (9999999 / 10000000) blank_binomial) = 9999999 / 10000000"
    by (simp add: BinomialRand_def Binomial_setParameters_fields)
  have n0: "1 \<le> bin_n (BinomialRand test_mathlib 20 0 blank_binomial)"
    by (simp add: BinomialRand_def Binomial_setParameters_fields)
  have n1: "bin_n (BinomialRand test_mathlib 20 (9999999 / 10000000) blank_binomial) = 20"
    by (simp add: BinomialRand_def Binomial_setParameters_fields)
  have n1': "1 \<le> bin_n (BinomialRand test_mathlib 20 (9999999 / 10000000) blank_binomial)"
    by (simp add: n1)
  have c1: "areClose (bin_p (BinomialRand test_mathlib 20 (9999999 / 10000000) blank_binomial)) 1"
    unfolding p1 by (simp add: areClose_def areClose_eps_def)
  note a = Binomial_sample_short_circuit [THEN conjunct1, THEN mp, OF p0,
      of "counting_sources 1 0 0 9" test_mathlib "[7, 7, 7]" 0]
  note b = Binomial_sample_short_circuit [THEN conjunct2, THEN conjunct1, THEN mp, OF c1,
      of "counting_sources 1 0 0 9" test_mathlib "[7, 7, 7]" 0]
  note c = Binomial_sample_short_circuit [THEN conjunct2, THEN conjunct2, THEN conjunct1,
      THEN mp, OF n0, of 0 1 0 0 9 test_mathlib]
  note d = Binomial_sample_short_circuit [THEN conjunct2, THEN conjunct2, THEN conjunct1,
      THEN mp, OF n1', of 0 1 0 0 9 test_mathlib]
  have a': "Binomial_sample (counting_sources 1 0 0 9) test_mathlib
       (BinomialRand test_mathlib 20 0 blank_binomial) [7, 7, 7] 0 = ([0, 0, 0], 0)"
    using a by (simp add: numeral_3_eq_3)
  have b': "Binomial_sample (counting_sources 1 0 0 9) test_mathlib
       (BinomialRand test_mathlib 20 (9999999 / 10000000) blank_binomial) [7, 7, 7] 0 = ([20, 20, 20], 0)"
    using b by (simp add: n1 numeral_3_eq_3)
  show ?thesis
    by (intro conjI) (fact a', fact b', fact c, fact d)
qed

end
